theory Spec2Isabelle
  imports Complex_Main "HOL-Library.AList"
begin

section \<open>Python values, exceptions and the outside world\<close>

text \<open>
  The two modules are dynamically typed Python, and two of the properties below depend on
  that (an attribute that is never assigned, a \<open>str\<close> where an \<open>int\<close> is expected).
  Scalars are therefore values of one type \<open>pyval\<close>; an attribute of an object holds a
  scalar, the namedtuple \<open>Lease(name, path, offset)\<close> or a flat dict.
\<close>

datatype pyval = PNone | PBool bool | PInt int | PStr string

datatype attr =
    Val pyval
  | LeaseT pyval pyval pyval
  | Dict "(string \<times> pyval) list"

text \<open>
  A message is kept as the format string and its arguments (\<open>"Cannot acquire %s" % (lease,)\<close>),
  so that no \<open>repr\<close> has to be modelled.
\<close>

datatype message = Text string | Format string "attr list"

datatype exn =
    SanlockException (errno: int) (strerror: string)
  | AcquireLockFailure attr int message string
  | ReleaseLockFailure attr exn
  | UnsupportedOperation message attr attr
  | ValueError message
  | KeyError string
  | TypeError string
  | AttributeError string
  | CollaboratorError string

text \<open>
  \<open>CollaboratorError\<close> stands for any exception that a collaborator outside the two
  modules raises and the modules do not name.
\<close>

datatype mode = SHARED | EXCLUSIVE

datatype lock =
    Lock string pyval mode
  | VolumeLease pyval pyval pyval pyval

text \<open>
  The document that \<open>json.dumps(d).encode("utf-8")\<close> produces for a flat dict \<open>d\<close> is
  represented by the dict it encodes.
\<close>

datatype lvb_data = Json "(string \<times> pyval) list"

record convert_args =
  src_path :: pyval
  dst_path :: pyval
  srcFormat :: string
  dstFormat :: string
  dstQcow2Compat :: pyval
  backing :: pyval
  backingFormat :: "string option"
  unordered_writes :: bool
  create :: bool
  bitmaps :: bool
  target_is_zero :: bool

text \<open>
  Every call that leaves the two modules is an entry of the trace. The calls of the
  cluster-lock primitive carry the arguments the source passes.
\<close>

datatype call =
    Sanlock_register
  | Sanlock_acquire string string "(pyval \<times> pyval) list" pyval bool
  | Sanlock_release string string "(pyval \<times> pyval) list" pyval
  | Sanlock_set_lvb string string "(pyval \<times> pyval) list" lvb_data
  | Log_info string message
  | Rm_acquireResource string pyval mode
  | Rm_releaseResource string pyval mode
  | Guarded_enter "lock list"
  | Guarded_exit "lock list"
  | Volume_prepare pyval bool bool
  | Volume_teardown pyval pyval bool
  | Volume_operation_enter pyval pyval
  | Volume_operation_exit pyval "exn option"
  | AppropriateDevice pyval pyval string
  | UdevTrigger pyval string
  | Sleep int
  | Qemuimg_convert convert_args
  | Operation_run convert_args
  | Operation_abort convert_args

datatype reply = Ok | Raises exn

text \<open>
  The world outside: \<open>script\<close> holds the outcome of each coming call, in order (a call
  past the end of the script succeeds), \<open>trace\<close> the calls made so far with their
  outcome, oldest first, and \<open>fd\<close> the descriptor that \<open>sanlock.register()\<close> returns.
\<close>

record world =
  script :: "reply list"
  trace :: "(call \<times> reply) list"
  fd :: pyval

definition extcall :: "call \<Rightarrow> world \<Rightarrow> (exn + unit) \<times> world" where
  "extcall c w =
     (case script w of
        [] \<Rightarrow> (Inr (), w\<lparr>trace := trace w @ [(c, Ok)]\<rparr>)
      | r # rs \<Rightarrow>
          ((case r of Ok \<Rightarrow> Inr () | Raises e \<Rightarrow> Inl e),
           w\<lparr>script := rs, trace := trace w @ [(c, r)]\<rparr>))"

text \<open>Logging never fails and takes nothing from the script.\<close>

definition log_info :: "string \<Rightarrow> message \<Rightarrow> world \<Rightarrow> world" where
  "log_info logger m w = w\<lparr>trace := trace w @ [(Log_info logger m, Ok)]\<rparr>"

section \<open>Python built-ins used by the modules\<close>

fun str_nat :: "nat \<Rightarrow> string" where
  "str_nat n =
     (if n < 10 then [char_of (48 + n)]
      else str_nat (n div 10) @ [char_of (48 + n mod 10)])"

declare str_nat.simps [simp del]

definition str_int :: "int \<Rightarrow> string" where
  "str_int i = (if i < 0 then CHR ''-'' # str_nat (nat (- i)) else str_nat (nat i))"

text \<open>
  \<open>int(s)\<close> for a string: an optional sign and decimal digits; anything else raises
  ValueError. (Python also accepts surrounding white space and underscores between
  digits; the only string the modules ever pass is the literal \<open>'0'\<close>.)
\<close>

definition is_digit :: "char \<Rightarrow> bool" where
  "is_digit c = (48 \<le> (of_char c :: nat) \<and> (of_char c :: nat) \<le> 57)"

definition digits_val :: "string \<Rightarrow> int" where
  "digits_val s = foldl (\<lambda>a c. 10 * a + (int (of_char c) - 48)) 0 s"

definition int_of_string :: "string \<Rightarrow> exn + int" where
  "int_of_string s =
     (let body = (case s of c # r \<Rightarrow> (if c = CHR ''-'' \<or> c = CHR ''+'' then r else s) | [] \<Rightarrow> s)
      in if body \<noteq> [] \<and> list_all is_digit body
         then Inr (if s \<noteq> [] \<and> hd s = CHR ''-'' then - digits_val body else digits_val body)
         else Inl (ValueError (Format ''invalid literal for int() with base 10: %r'' [Val (PStr s)])))"

definition py_int :: "pyval \<Rightarrow> exn + int" where
  "py_int v =
     (case v of
        PInt n \<Rightarrow> Inr n
      | PBool b \<Rightarrow> Inr (if b then 1 else 0)
      | PStr s \<Rightarrow> int_of_string s
      | PNone \<Rightarrow> Inl (TypeError ''int() argument must be a string or a number''))"

text \<open>\<open>x + str(value)\<close>: only a string can be concatenated with a string.\<close>

definition add_str :: "pyval \<Rightarrow> string \<Rightarrow> exn + pyval" where
  "add_str x t =
     (case x of
        PStr s \<Rightarrow> Inr (PStr (s @ t))
      | _ \<Rightarrow> Inl (TypeError ''unsupported operand type(s) for +''))"

text \<open>\<open>v.encode("utf-8")\<close>: a method of \<open>str\<close> only.\<close>

definition encode :: "attr \<Rightarrow> exn + string" where
  "encode a = (case a of Val (PStr s) \<Rightarrow> Inr s | _ \<Rightarrow> Inl (AttributeError ''encode''))"

definition getitem :: "attr \<Rightarrow> string \<Rightarrow> exn + pyval" where
  "getitem a k =
     (case a of
        Dict kvs \<Rightarrow> (case map_of kvs k of Some v \<Rightarrow> Inr v | None \<Rightarrow> Inl (KeyError k))
      | _ \<Rightarrow> Inl (TypeError ''object is not subscriptable''))"

definition setitem :: "attr \<Rightarrow> string \<Rightarrow> pyval \<Rightarrow> exn + attr" where
  "setitem a k v =
     (case a of
        Dict kvs \<Rightarrow> Inr (Dict (AList.update k v kvs))
      | _ \<Rightarrow> Inl (TypeError ''object does not support item assignment''))"

definition json_dumps :: "attr \<Rightarrow> exn + lvb_data" where
  "json_dumps a =
     (case a of
        Dict kvs \<Rightarrow> Inr (Json kvs)
      | _ \<Rightarrow> Inl (TypeError ''Object is not JSON serializable as a flat object''))"

text \<open>The fields of the namedtuple \<open>Lease\<close>.\<close>

definition lease_name :: "attr \<Rightarrow> exn + attr" where
  "lease_name a = (case a of LeaseT n p off \<Rightarrow> Inr (Val n) | _ \<Rightarrow> Inl (AttributeError ''name''))"

definition lease_path :: "attr \<Rightarrow> exn + pyval" where
  "lease_path a = (case a of LeaseT n p off \<Rightarrow> Inr p | _ \<Rightarrow> Inl (AttributeError ''path''))"

definition lease_offset :: "attr \<Rightarrow> exn + pyval" where
  "lease_offset a = (case a of LeaseT n p off \<Rightarrow> Inr off | _ \<Rightarrow> Inl (AttributeError ''offset''))"

text \<open>Sequencing of expressions that may raise.\<close>

definition bindE :: "exn + 'a \<Rightarrow> ('a \<Rightarrow> exn + 'b) \<Rightarrow> exn + 'b" where
  "bindE m f = (case m of Inl e \<Rightarrow> Inl e | Inr a \<Rightarrow> f a)"

section \<open>disklease.py: the class DiskLease\<close>

text \<open>
  An instance is its attribute dictionary. An attribute read looks in the instance first
  and then in the class; the class attributes that DiskLease inherits from its base class
  \<open>guarded.AbstractLock\<close>, which is not among the sources, are the parameter \<open>cls\<close>.
\<close>

type_synonym pyobject = "(string \<times> attr) list"

definition getattr :: "pyobject \<Rightarrow> pyobject \<Rightarrow> string \<Rightarrow> exn + attr" where
  "getattr cls self a =
     (case map_of self a of
        Some v \<Rightarrow> Inr v
      | None \<Rightarrow> (case map_of cls a of Some v \<Rightarrow> Inr v | None \<Rightarrow> Inl (AttributeError a)))"

definition setattr :: "pyobject \<Rightarrow> string \<Rightarrow> attr \<Rightarrow> pyobject" where
  "setattr self a v = AList.update a v self"

text \<open>\<open>DiskLease.__init__(self, resource, path, offset, sd_id, host_id)\<close>\<close>

definition DiskLease_init :: "pyval \<Rightarrow> pyval \<Rightarrow> pyval \<Rightarrow> pyval \<Rightarrow> pyval \<Rightarrow> pyobject" where
  "DiskLease_init resource path offset sd_id host_id =
     [(''_lease'', LeaseT resource path offset),
      (''_sd_id'', Val sd_id),
      (''_host_id'', Val host_id),
      (''_generation'', Dict [(''gen'', PStr ''0'')]),
      (''_sanlock_fd'', Val PNone)]"

text \<open>
  The arguments \<open>(self._sd_id.encode("utf-8"), lease.name.encode("utf-8"),
  [(lease.path, lease.offset)])\<close> that every call of the primitive starts with, evaluated left
  to right.
\<close>

definition lease_args :: "pyobject \<Rightarrow> pyobject \<Rightarrow> attr \<Rightarrow> exn + string \<times> string \<times> (pyval \<times> pyval) list" where
  "lease_args cls self lease =
     bindE (getattr cls self ''_sd_id'') (\<lambda>sd.
     bindE (encode sd) (\<lambda>sd_b.
     bindE (lease_name lease) (\<lambda>n.
     bindE (encode n) (\<lambda>n_b.
     bindE (lease_path lease) (\<lambda>p.
     bindE (lease_offset lease) (\<lambda>off.
     Inr (sd_b, n_b, [(p, off)])))))))"

text \<open>
  The handler \<open>except sanlock.SanlockException as e: raise X(self._sdUUID, ...)\<close>: another
  exception passes through; for a SanlockException the arguments of the new exception are
  evaluated first, \<open>self._sdUUID\<close> before the others.
\<close>

definition except_Sanlock ::
  "pyobject \<Rightarrow> pyobject \<Rightarrow> (attr \<Rightarrow> exn \<Rightarrow> exn) \<Rightarrow> (exn + unit) \<times> world \<Rightarrow> (exn + unit) \<times> world" where
  "except_Sanlock cls self mk r =
     (case r of
        (Inr u, w) \<Rightarrow> (Inr u, w)
      | (Inl e, w) \<Rightarrow>
          (if is_SanlockException e
           then (case getattr cls self ''_sdUUID'' of
                   Inl e' \<Rightarrow> (Inl e', w)
                 | Inr sd \<Rightarrow> (Inl (mk sd e), w))
           else (Inl e, w)))"

text \<open>\<open>DiskLease.set_lvb(self, lease, data)\<close>\<close>

definition set_lvb :: "pyobject \<Rightarrow> pyobject \<Rightarrow> attr \<Rightarrow> lvb_data \<Rightarrow> world \<Rightarrow> (exn + unit) \<times> world" where
  "set_lvb cls self lease data w =
     (case lease_args cls self lease of
        Inl e \<Rightarrow> (Inl e, w)
      | Inr (sd_b, n_b, disks) \<Rightarrow>
          except_Sanlock cls self ReleaseLockFailure
            (extcall (Sanlock_set_lvb sd_b n_b disks data) w))"

text \<open>
  \<open>self.set_lvb(self._lease, json.dumps(self._generation).encode("utf-8"))\<close>, the last
  statement of both acquire and update_generation.
\<close>

definition persist_generation :: "pyobject \<Rightarrow> pyobject \<Rightarrow> world \<Rightarrow> (exn + unit) \<times> world" where
  "persist_generation cls self w =
     (case bindE (getattr cls self ''_lease'') (\<lambda>lease.
           bindE (getattr cls self ''_generation'') (\<lambda>g.
           bindE (json_dumps g) (\<lambda>data. Inr (lease, data)))) of
        Inl e \<Rightarrow> (Inl e, w)
      | Inr (lease, data) \<Rightarrow> set_lvb cls self lease data w)"

text \<open>
  The call \<open>sanlock.acquire(self._sd_id.encode("utf-8"), resource_name,
  [(self._lease.path, self._lease.offset)], slkfd=self._sanlock_fd, lvb=True)\<close> of
  \<open>acquire\<close>, after \<open>resource_name = self._lease.name.encode("utf-8")\<close>; the lease is
  returned with it for the message of the handler.
\<close>

definition acquire_call :: "pyobject \<Rightarrow> pyobject \<Rightarrow> exn + attr \<times> call" where
  "acquire_call cls self =
     bindE (getattr cls self ''_lease'') (\<lambda>lease.
     bindE (lease_name lease) (\<lambda>n.
     bindE (encode n) (\<lambda>resource_name.
     bindE (getattr cls self ''_sd_id'') (\<lambda>sd.
     bindE (encode sd) (\<lambda>sd_b.
     bindE (lease_path lease) (\<lambda>p.
     bindE (lease_offset lease) (\<lambda>off.
     bindE (getattr cls self ''_sanlock_fd'') (\<lambda>slkfd.
     Inr (lease, Sanlock_acquire sd_b resource_name [(p, off)]
                   (case slkfd of Val v \<Rightarrow> v | _ \<Rightarrow> PNone) True)))))))))"

text \<open>\<open>DiskLease.acquire(self)\<close>\<close>

definition acquire :: "pyobject \<Rightarrow> pyobject \<Rightarrow> world \<Rightarrow> (exn + unit) \<times> pyobject \<times> world" where
  "acquire cls self w =
     (case except_Sanlock cls self
             (\<lambda>sd e. AcquireLockFailure sd (errno e) (Text ''Cannot register to sanlock'') (strerror e))
             (extcall Sanlock_register w) of
        (Inl e, w1) \<Rightarrow> (Inl e, self, w1)
      | (Inr u, w1) \<Rightarrow>
          (let self1 = setattr self ''_sanlock_fd'' (Val (fd w1)) in
           case acquire_call cls self1 of
             Inl e \<Rightarrow> (Inl e, self1, w1)
           | Inr (lease, c) \<Rightarrow>
               (case except_Sanlock cls self1
                       (\<lambda>sd e. AcquireLockFailure sd (errno e) (Format ''Cannot acquire %s'' [lease]) (strerror e))
                       (extcall c w1) of
                  (Inl e, w2) \<Rightarrow> (Inl e, self1, w2)
                | (Inr u2, w2) \<Rightarrow>
                    (case persist_generation cls self1 w2 of (r, w3) \<Rightarrow> (r, self1, w3)))))"

text \<open>
  The call \<open>sanlock.release(self._sd_id.encode("utf-8"), resource_name,
  [(self._lease.path, self._lease.offset)], slkfd=self._sanlock_fd)\<close> of \<open>release\<close>.
\<close>

definition release_call :: "pyobject \<Rightarrow> pyobject \<Rightarrow> exn + call" where
  "release_call cls self =
     bindE (getattr cls self ''_lease'') (\<lambda>lease.
     bindE (lease_name lease) (\<lambda>n.
     bindE (encode n) (\<lambda>resource_name.
     bindE (getattr cls self ''_sd_id'') (\<lambda>sd.
     bindE (encode sd) (\<lambda>sd_b.
     bindE (lease_path lease) (\<lambda>p.
     bindE (lease_offset lease) (\<lambda>off.
     bindE (getattr cls self ''_sanlock_fd'') (\<lambda>slkfd.
     Inr (Sanlock_release sd_b resource_name [(p, off)]
            (case slkfd of Val v \<Rightarrow> v | _ \<Rightarrow> PNone))))))))))"

text \<open>\<open>DiskLease.release(self)\<close>\<close>

definition release :: "pyobject \<Rightarrow> pyobject \<Rightarrow> world \<Rightarrow> (exn + unit) \<times> world" where
  "release cls self w =
     (case release_call cls self of
        Inl e \<Rightarrow> (Inl e, w)
      | Inr c \<Rightarrow> except_Sanlock cls self ReleaseLockFailure (extcall c w))"

text \<open>
  \<open>DiskLease.update_generation(self, value)\<close>. The arguments of \<open>self.log.info\<close> are
  evaluated before the call, whatever the log level: \<open>self._generation['gen']\<close>, then
  \<open>self._generation['gen'] + str(value)\<close>.
\<close>

definition update_generation :: "pyobject \<Rightarrow> pyobject \<Rightarrow> int \<Rightarrow> world \<Rightarrow> (exn + unit) \<times> pyobject \<times> world" where
  "update_generation cls self val w =
     (case bindE (getattr cls self ''_generation'') (\<lambda>g.
           bindE (getitem g ''gen'') (\<lambda>old.
           bindE (add_str old (str_int val)) (\<lambda>new.
           Inr (Format ''updating generation from %s to %s'' [Val old, Val new])))) of
        Inl e \<Rightarrow> (Inl e, self, w)
      | Inr m \<Rightarrow>
          (let w1 = log_info ''storage.disklease'' m w in
           case bindE (getattr cls self ''_generation'') (\<lambda>g.
                bindE (getitem g ''gen'') (\<lambda>old.
                bindE (py_int old) (\<lambda>n.
                bindE (setitem g ''gen'' (PInt (n + val))) (\<lambda>g'.
                Inr (setattr self ''_generation'' g'))))) of
             Inl e \<Rightarrow> (Inl e, self, w1)
           | Inr self1 \<Rightarrow>
               (case persist_generation cls self1 w1 of (r, w2) \<Rightarrow> (r, self1, w2))))"

section \<open>Collaborators of copy_data.py\<close>

text \<open>
  The storage-domain directory, the volume objects, the resource-manager constants, the
  format table and the property validators are used by copy_data.py and are not among
  the sources. They are parameters: what a lookup returns is a field of \<open>env\<close>, and a
  lookup that can fail returns the exception.
\<close>

record volume =
  volUUID :: pyval
  getVolumePath :: pyval
  getFormat :: int
  getParentVolume :: "(pyval \<times> int) option"
  requires_create :: bool
  zero_initialized :: bool

record lease_info_t =
  resource :: pyval
  info_path :: pyval
  info_offset :: pyval

record manifest =
  hasVolumeLeases :: bool
  qcow2_compat :: pyval
  recommends_unordered_writes :: "int \<Rightarrow> bool"
  produceVolume :: "pyval \<Rightarrow> pyval \<Rightarrow> exn + volume"
  lease_info :: "pyval \<Rightarrow> exn + lease_info_t"

record env =
  produce_manifest :: "pyval \<Rightarrow> exn + manifest"
  STORAGE :: string
  IMAGE_NAMESPACE :: string
  getNamespace :: "string \<Rightarrow> pyval \<Rightarrow> string"
  fmt2str :: "int \<Rightarrow> string"
  FORMAT_RAW :: string
  invalid_vm_conf_disk :: "volume \<Rightarrow> bool"
  getBackingVolumePath :: "pyval \<Rightarrow> pyval \<Rightarrow> pyval"
  prop_UUID :: "bool \<Rightarrow> pyval \<Rightarrow> exn + pyval"
  prop_Integer :: "bool \<Rightarrow> pyval \<Rightarrow> exn + pyval"
  prop_Boolean :: "pyval \<Rightarrow> exn + pyval"
  prop_String :: "bool \<Rightarrow> pyval \<Rightarrow> exn + pyval"
  AbstractLock_attrs :: pyobject

text \<open>
  \<open>prop_UUID required v\<close> is what assigning \<open>v\<close> to a \<open>properties.UUID(required=...)\<close>
  attribute stores, or the exception it raises; likewise \<open>prop_String\<close>,
  \<open>prop_Integer\<close> (of \<open>properties.Integer(required=False, minval=0,
  maxval=sc.MAX_GENERATION)\<close>) and \<open>prop_Boolean\<close> (of
  \<open>properties.Boolean(default=False)\<close>).
\<close>

text \<open>The truth value of a Python scalar in \<open>if x:\<close>.\<close>

definition truthy :: "pyval \<Rightarrow> bool" where
  "truthy v = (case v of PNone \<Rightarrow> False | PBool b \<Rightarrow> b | PInt n \<Rightarrow> n \<noteq> 0 | PStr s \<Rightarrow> s \<noteq> [])"

text \<open>\<open>params.get(k)\<close> and \<open>params.pop(k)\<close> on the parameter dict.\<close>

definition dict_get :: "(string \<times> pyval) list \<Rightarrow> string \<Rightarrow> pyval" where
  "dict_get params k = (case map_of params k of Some v \<Rightarrow> v | None \<Rightarrow> PNone)"

definition dict_pop :: "(string \<times> pyval) list \<Rightarrow> string \<Rightarrow> exn + pyval \<times> (string \<times> pyval) list" where
  "dict_pop params k =
     (case map_of params k of
        Some v \<Rightarrow> Inr (v, AList.delete k params)
      | None \<Rightarrow> Inl (KeyError k))"

section \<open>The with statement\<close>

text \<open>
  \<open>with cm: body\<close> over a state \<open>'s\<close> of the caller and the world. \<open>enter\<close> is
  \<open>__enter__\<close> (for a generator under \<open>@contextmanager\<close>, the code up to \<open>yield\<close>)
  and yields what the exit needs; \<open>exit r None\<close> runs when the body ends or returns,
  \<open>exit r (Some e)\<close> when the body raises \<open>e\<close>. No context manager here swallows an
  exception: after \<open>exit r (Some e)\<close> the exception \<open>e\<close> goes on, unless the exit
  raises itself.
\<close>

definition with_cm ::
  "(world \<Rightarrow> (exn + 'r) \<times> world) \<Rightarrow> ('r \<Rightarrow> exn option \<Rightarrow> world \<Rightarrow> (exn + unit) \<times> world) \<Rightarrow>
   ('s \<times> world \<Rightarrow> (exn + 'a) \<times> 's \<times> world) \<Rightarrow> 's \<times> world \<Rightarrow> (exn + 'a) \<times> 's \<times> world" where
  "with_cm enter exit body sw =
     (case enter (snd sw) of
        (Inl e, w1) \<Rightarrow> (Inl e, fst sw, w1)
      | (Inr r, w1) \<Rightarrow>
          (case body (fst sw, w1) of
             (Inl e, s2, w2) \<Rightarrow>
               (case exit r (Some e) w2 of
                  (Inl e', w3) \<Rightarrow> (Inl e', s2, w3)
                | (Inr u, w3) \<Rightarrow> (Inl e, s2, w3))
           | (Inr a, s2, w2) \<Rightarrow>
               (case exit r None w2 of
                  (Inl e', w3) \<Rightarrow> (Inl e', s2, w3)
                | (Inr u, w3) \<Rightarrow> (Inr a, s2, w3))))"

section \<open>copy_data.py: the endpoints\<close>

record div_endpoint =
  sd_id :: pyval
  img_id :: pyval
  vol_id :: pyval
  generation :: pyval
  prepared :: pyval
  div_host_id :: pyval
  writable :: bool

record ext_endpoint =
  ext_path :: pyval
  lease_sd_id :: pyval
  lease_id :: pyval
  ext_host_id :: pyval

datatype endpoint =
    CopyDataDivEndpoint div_endpoint
  | CopyDataExternalEndpoint ext_endpoint

text \<open>\<open>CopyDataDivEndpoint.__init__(self, params, host_id, writable)\<close>\<close>

definition CopyDataDivEndpoint_init ::
  "env \<Rightarrow> (string \<times> pyval) list \<Rightarrow> pyval \<Rightarrow> bool \<Rightarrow> exn + div_endpoint" where
  "CopyDataDivEndpoint_init E params host_id wr =
     bindE (prop_UUID E True (dict_get params ''sd_id'')) (\<lambda>sd.
     bindE (prop_UUID E True (dict_get params ''img_id'')) (\<lambda>img.
     bindE (prop_UUID E True (dict_get params ''vol_id'')) (\<lambda>vol.
     bindE (prop_Integer E False (dict_get params ''generation'')) (\<lambda>gen.
     bindE (prop_Boolean E (dict_get params ''prepared'')) (\<lambda>prep.
     Inr \<lparr>sd_id = sd, img_id = img, vol_id = vol, generation = gen, prepared = prep,
          div_host_id = host_id, writable = wr\<rparr>)))))"

text \<open>\<open>CopyDataExternalEndpoint.__init__(self, params, host_id)\<close>\<close>

definition CopyDataExternalEndpoint_init ::
  "env \<Rightarrow> (string \<times> pyval) list \<Rightarrow> pyval \<Rightarrow> world \<Rightarrow> (exn + ext_endpoint) \<times> world" where
  "CopyDataExternalEndpoint_init E params host_id w =
     (case bindE (prop_String E True (dict_get params ''path'')) (\<lambda>p.
           bindE (prop_UUID E True (dict_get params ''lease_sd_id'')) (\<lambda>lsd.
           bindE (prop_UUID E False (dict_get params ''lease_id'')) (\<lambda>lid.
           Inr \<lparr>ext_path = p, lease_sd_id = lsd, lease_id = lid, ext_host_id = host_id\<rparr>))) of
        Inl e \<Rightarrow> (Inl e, w)
      | Inr ep \<Rightarrow>
          (case extcall (AppropriateDevice (ext_path ep) PNone ''rbd'') w of
             (Inl e, w1) \<Rightarrow> (Inl e, w1)
           | (Inr u, w1) \<Rightarrow> (Inr ep, w1)))"

text \<open>\<open>_create_endpoint(params, host_id, writable)\<close>\<close>

definition create_endpoint ::
  "env \<Rightarrow> (string \<times> pyval) list \<Rightarrow> pyval \<Rightarrow> bool \<Rightarrow> world \<Rightarrow> (exn + endpoint) \<times> world" where
  "create_endpoint E params host_id wr w =
     (case dict_pop params ''endpoint_type'' of
        Inl e \<Rightarrow> (Inl e, w)
      | Inr (endpoint_type, rest) \<Rightarrow>
          (if endpoint_type = PStr ''div''
           then (case CopyDataDivEndpoint_init E rest host_id wr of
                   Inl e \<Rightarrow> (Inl e, w)
                 | Inr d \<Rightarrow> (Inr (CopyDataDivEndpoint d), w))
           else if endpoint_type = PStr ''external''
           then (case CopyDataExternalEndpoint_init E rest host_id w of
                   (Inl e, w1) \<Rightarrow> (Inl e, w1)
                 | (Inr x, w1) \<Rightarrow> (Inr (CopyDataExternalEndpoint x), w1))
           else (Inl (ValueError (Format ''Invalid or unsupported endpoint %r'' [Dict rest])), w)))"

subsection \<open>CopyDataDivEndpoint\<close>

text \<open>
  The property \<open>volume\<close>: \<open>sdCache.produce_manifest(self.sd_id)\<close>, then
  \<open>dom.produceVolume(self.img_id, self.vol_id)\<close>. The source keeps the result in
  \<open>self._vol\<close>; the lookups of \<open>env\<close> are functions, so the kept value is the one a new
  lookup returns and the cache is not modelled.
\<close>

definition div_volume :: "env \<Rightarrow> div_endpoint \<Rightarrow> exn + volume" where
  "div_volume E ep =
     bindE (produce_manifest E (sd_id ep)) (\<lambda>dom. produceVolume dom (img_id ep) (vol_id ep))"

text \<open>The property \<open>locks\<close> of CopyDataDivEndpoint.\<close>

definition div_locks :: "env \<Rightarrow> div_endpoint \<Rightarrow> exn + lock list" where
  "div_locks E ep =
     (let img_ns = getNamespace E (IMAGE_NAMESPACE E) (sd_id ep);
          m = (if writable ep then EXCLUSIVE else SHARED);
          ret = [Lock (STORAGE E) (sd_id ep) SHARED, Lock img_ns (img_id ep) m]
      in if writable ep
         then bindE (produce_manifest E (sd_id ep)) (\<lambda>dom.
                if hasVolumeLeases dom
                then Inr (ret @ [VolumeLease (div_host_id ep) (sd_id ep) (img_id ep) (vol_id ep)])
                else Inr ret)
         else Inr ret)"

definition div_path :: "env \<Rightarrow> div_endpoint \<Rightarrow> exn + pyval" where
  "div_path E ep = bindE (div_volume E ep) (\<lambda>v. Inr (getVolumePath v))"

definition div_is_invalid_vm_conf_disk :: "env \<Rightarrow> div_endpoint \<Rightarrow> exn + bool" where
  "div_is_invalid_vm_conf_disk E ep = bindE (div_volume E ep) (\<lambda>v. Inr (invalid_vm_conf_disk E v))"

definition div_qemu_format :: "env \<Rightarrow> div_endpoint \<Rightarrow> exn + string" where
  "div_qemu_format E ep = bindE (div_volume E ep) (\<lambda>v. Inr (fmt2str E (getFormat v)))"

definition div_backing_path :: "env \<Rightarrow> div_endpoint \<Rightarrow> exn + pyval" where
  "div_backing_path E ep =
     bindE (div_volume E ep) (\<lambda>v.
       case getParentVolume v of
         None \<Rightarrow> Inr PNone
       | Some (parent_uuid, parent_format) \<Rightarrow> Inr (getBackingVolumePath E (img_id ep) parent_uuid))"

definition div_qcow2_compat :: "env \<Rightarrow> div_endpoint \<Rightarrow> exn + pyval" where
  "div_qcow2_compat E ep = bindE (produce_manifest E (sd_id ep)) (\<lambda>dom. Inr (qcow2_compat dom))"

definition div_backing_qemu_format :: "env \<Rightarrow> div_endpoint \<Rightarrow> exn + string option" where
  "div_backing_qemu_format E ep =
     bindE (div_volume E ep) (\<lambda>v.
       case getParentVolume v of
         None \<Rightarrow> Inr None
       | Some (parent_uuid, parent_format) \<Rightarrow> Inr (Some (fmt2str E parent_format)))"

definition div_recommends_unordered_writes :: "env \<Rightarrow> div_endpoint \<Rightarrow> exn + bool" where
  "div_recommends_unordered_writes E ep =
     bindE (produce_manifest E (sd_id ep)) (\<lambda>dom.
     bindE (div_volume E ep) (\<lambda>v. Inr (recommends_unordered_writes dom (getFormat v))))"

definition div_requires_create :: "env \<Rightarrow> div_endpoint \<Rightarrow> exn + bool" where
  "div_requires_create E ep = bindE (div_volume E ep) (\<lambda>v. Inr (requires_create v))"

definition div_zero_initialized :: "env \<Rightarrow> div_endpoint \<Rightarrow> exn + bool" where
  "div_zero_initialized E ep = bindE (div_volume E ep) (\<lambda>v. Inr (zero_initialized v))"

text \<open>
  \<open>CopyDataDivEndpoint.prepare\<close>, a generator under \<open>@contextmanager\<close>: the code up to
  \<open>yield\<close>, and the code that runs when the body is left. The \<open>finally\<close> clause runs on
  both ways out.
\<close>

definition div_prepare_enter :: "env \<Rightarrow> div_endpoint \<Rightarrow> world \<Rightarrow> (exn + unit) \<times> world" where
  "div_prepare_enter E ep w =
     (if truthy (prepared ep) then (Inr (), w)
      else (case div_volume E ep of
              Inl e \<Rightarrow> (Inl e, w)
            | Inr v \<Rightarrow> extcall (Volume_prepare (volUUID v) (writable ep) False) w))"

definition div_prepare_exit :: "env \<Rightarrow> div_endpoint \<Rightarrow> unit \<Rightarrow> exn option \<Rightarrow> world \<Rightarrow> (exn + unit) \<times> world" where
  "div_prepare_exit E ep u raised w =
     (if truthy (prepared ep) then (Inr (), w)
      else (case div_volume E ep of
              Inl e \<Rightarrow> (Inl e, w)
            | Inr v \<Rightarrow> extcall (Volume_teardown (sd_id ep) (vol_id ep) False) w))"

text \<open>
  \<open>CopyDataDivEndpoint.volume_operation\<close> returns \<open>self.volume.operation(self.generation)\<close>,
  a context manager of the volume, which is not among the sources: entering and leaving
  it are calls to the outside.
\<close>

definition div_volume_operation_enter :: "env \<Rightarrow> div_endpoint \<Rightarrow> world \<Rightarrow> (exn + pyval) \<times> world" where
  "div_volume_operation_enter E ep w =
     (case div_volume E ep of
        Inl e \<Rightarrow> (Inl e, w)
      | Inr v \<Rightarrow>
          (case extcall (Volume_operation_enter (volUUID v) (generation ep)) w of
             (Inl e, w1) \<Rightarrow> (Inl e, w1)
           | (Inr u, w1) \<Rightarrow> (Inr (volUUID v), w1)))"

definition div_volume_operation_exit :: "pyval \<Rightarrow> exn option \<Rightarrow> world \<Rightarrow> (exn + unit) \<times> world" where
  "div_volume_operation_exit vol raised w = extcall (Volume_operation_exit vol raised) w"

subsection \<open>CopyDataExternalEndpoint\<close>

text \<open>The property \<open>locks\<close> of CopyDataExternalEndpoint.\<close>

definition ext_locks :: "ext_endpoint \<Rightarrow> lock list" where
  "ext_locks ep = []"

definition ext_is_invalid_vm_conf_disk :: "ext_endpoint \<Rightarrow> bool" where
  "ext_is_invalid_vm_conf_disk ep = False"

definition ext_qemu_format :: "env \<Rightarrow> ext_endpoint \<Rightarrow> string" where
  "ext_qemu_format E ep = FORMAT_RAW E"

text \<open>
  \<open>CopyDataExternalEndpoint.prepare\<close>: the \<open>finally\<close> clause only logs.
\<close>

definition ext_prepare_enter :: "ext_endpoint \<Rightarrow> world \<Rightarrow> (exn + unit) \<times> world" where
  "ext_prepare_enter ep w =
     (let w0 = log_info ''storage.sdm.copy_data'' (Text ''prepare'') w in
      case extcall (AppropriateDevice (ext_path ep) PNone ''rbd'') w0 of
        (Inl e, w1) \<Rightarrow> (Inl e, w1)
      | (Inr u, w1) \<Rightarrow>
          (case extcall (UdevTrigger (ext_path ep) ''rbd'') w1 of
             (Inl e, w2) \<Rightarrow> (Inl e, w2)
           | (Inr u2, w2) \<Rightarrow> extcall (Sleep 5) w2))"

definition ext_prepare_exit :: "ext_endpoint \<Rightarrow> unit \<Rightarrow> exn option \<Rightarrow> world \<Rightarrow> (exn + unit) \<times> world" where
  "ext_prepare_exit ep u raised w =
     (Inr (), log_info ''storage.sdm.copy_data'' (Text ''teardown'') w)"

text \<open>
  \<open>CopyDataExternalEndpoint.volume_operation\<close>, a generator under \<open>@contextmanager\<close>.
  Up to \<open>yield\<close>: the lease is looked up under the shared resource of the storage domain
  (a \<open>with\<close> of its own), a DiskLease is built and acquired. The generator has no
  \<open>try\<close> around \<open>yield\<close>: when the body raises, the exception is raised at \<open>yield\<close>
  and leaves the generator, and none of the statements after \<open>yield\<close> runs.
\<close>

definition ext_lease_info :: "env \<Rightarrow> ext_endpoint \<Rightarrow> world \<Rightarrow> (exn + lease_info_t) \<times> world" where
  "ext_lease_info E ep w =
     (case with_cm
             (extcall (Rm_acquireResource (STORAGE E) (lease_sd_id ep) SHARED))
             (\<lambda>u raised. extcall (Rm_releaseResource (STORAGE E) (lease_sd_id ep) SHARED))
             (\<lambda>(s, w1).
                (bindE (produce_manifest E (lease_sd_id ep)) (\<lambda>dom. lease_info dom (lease_id ep)),
                 s, w1))
             ((), w) of
        (r, s, w2) \<Rightarrow> (r, w2))"

definition ext_volume_operation_enter :: "env \<Rightarrow> ext_endpoint \<Rightarrow> world \<Rightarrow> (exn + pyobject) \<times> world" where
  "ext_volume_operation_enter E ep w =
     (let w0 = log_info ''storage.sdm.copy_data'' (Text ''Starting operation'') w in
      case ext_lease_info E ep w0 of
        (Inl e, w1) \<Rightarrow> (Inl e, w1)
      | (Inr info, w1) \<Rightarrow>
          (let lease = DiskLease_init (resource info) (info_path info) (info_offset info)
                         (lease_sd_id ep) (ext_host_id ep)
           in case acquire (AbstractLock_attrs E) lease w1 of
                (Inl e, lease1, w2) \<Rightarrow> (Inl e, w2)
              | (Inr u, lease1, w2) \<Rightarrow>
                  (Inr lease1, log_info ''storage.sdm.copy_data'' (Text ''acquire disk lease'') w2)))"

definition ext_volume_operation_exit :: "env \<Rightarrow> pyobject \<Rightarrow> exn option \<Rightarrow> world \<Rightarrow> (exn + unit) \<times> world" where
  "ext_volume_operation_exit E lease raised w =
     (case raised of
        Some e \<Rightarrow> (Inr (), w)
      | None \<Rightarrow>
          (let w0 = log_info ''storage.sdm.copy_data'' (Text ''update generation'') w in
           case update_generation (AbstractLock_attrs E) lease 1 w0 of
             (Inl e, lease1, w1) \<Rightarrow> (Inl e, w1)
           | (Inr u, lease1, w1) \<Rightarrow>
               release (AbstractLock_attrs E) lease1
                 (log_info ''storage.sdm.copy_data'' (Text ''acquire release lease'') w1)))"

text \<open>
  \<open>with ep.volume_operation(): body\<close> for an external endpoint, the body being any
  program over the world.
\<close>

definition ext_volume_operation ::
  "env \<Rightarrow> ext_endpoint \<Rightarrow> ('s \<times> world \<Rightarrow> (exn + 'a) \<times> 's \<times> world) \<Rightarrow> 's \<times> world \<Rightarrow> (exn + 'a) \<times> 's \<times> world" where
  "ext_volume_operation E ep body sw =
     with_cm (ext_volume_operation_enter E ep) (ext_volume_operation_exit E) body sw"

subsection \<open>What the job asks of either endpoint\<close>

datatype operation_scope = DivScope pyval | ExtScope pyobject

definition ep_locks :: "env \<Rightarrow> endpoint \<Rightarrow> exn + lock list" where
  "ep_locks E ep =
     (case ep of CopyDataDivEndpoint d \<Rightarrow> div_locks E d | CopyDataExternalEndpoint x \<Rightarrow> Inr (ext_locks x))"

definition ep_path :: "env \<Rightarrow> endpoint \<Rightarrow> exn + pyval" where
  "ep_path E ep =
     (case ep of CopyDataDivEndpoint d \<Rightarrow> div_path E d | CopyDataExternalEndpoint x \<Rightarrow> Inr (ext_path x))"

definition ep_is_invalid_vm_conf_disk :: "env \<Rightarrow> endpoint \<Rightarrow> exn + bool" where
  "ep_is_invalid_vm_conf_disk E ep =
     (case ep of
        CopyDataDivEndpoint d \<Rightarrow> div_is_invalid_vm_conf_disk E d
      | CopyDataExternalEndpoint x \<Rightarrow> Inr (ext_is_invalid_vm_conf_disk x))"

definition ep_qemu_format :: "env \<Rightarrow> endpoint \<Rightarrow> exn + string" where
  "ep_qemu_format E ep =
     (case ep of
        CopyDataDivEndpoint d \<Rightarrow> div_qemu_format E d
      | CopyDataExternalEndpoint x \<Rightarrow> Inr (ext_qemu_format E x))"

definition ep_qcow2_compat :: "env \<Rightarrow> endpoint \<Rightarrow> exn + pyval" where
  "ep_qcow2_compat E ep =
     (case ep of CopyDataDivEndpoint d \<Rightarrow> div_qcow2_compat E d | CopyDataExternalEndpoint x \<Rightarrow> Inr PNone)"

definition ep_backing_path :: "env \<Rightarrow> endpoint \<Rightarrow> exn + pyval" where
  "ep_backing_path E ep =
     (case ep of CopyDataDivEndpoint d \<Rightarrow> div_backing_path E d | CopyDataExternalEndpoint x \<Rightarrow> Inr PNone)"

definition ep_backing_qemu_format :: "env \<Rightarrow> endpoint \<Rightarrow> exn + string option" where
  "ep_backing_qemu_format E ep =
     (case ep of
        CopyDataDivEndpoint d \<Rightarrow> div_backing_qemu_format E d
      | CopyDataExternalEndpoint x \<Rightarrow> Inr None)"

definition ep_recommends_unordered_writes :: "env \<Rightarrow> endpoint \<Rightarrow> exn + bool" where
  "ep_recommends_unordered_writes E ep =
     (case ep of
        CopyDataDivEndpoint d \<Rightarrow> div_recommends_unordered_writes E d
      | CopyDataExternalEndpoint x \<Rightarrow> Inr True)"

definition ep_requires_create :: "env \<Rightarrow> endpoint \<Rightarrow> exn + bool" where
  "ep_requires_create E ep =
     (case ep of CopyDataDivEndpoint d \<Rightarrow> div_requires_create E d | CopyDataExternalEndpoint x \<Rightarrow> Inr False)"

definition ep_zero_initialized :: "env \<Rightarrow> endpoint \<Rightarrow> exn + bool" where
  "ep_zero_initialized E ep =
     (case ep of CopyDataDivEndpoint d \<Rightarrow> div_zero_initialized E d | CopyDataExternalEndpoint x \<Rightarrow> Inr False)"

definition ep_prepare_enter :: "env \<Rightarrow> endpoint \<Rightarrow> world \<Rightarrow> (exn + unit) \<times> world" where
  "ep_prepare_enter E ep w =
     (case ep of
        CopyDataDivEndpoint d \<Rightarrow> div_prepare_enter E d w
      | CopyDataExternalEndpoint x \<Rightarrow> ext_prepare_enter x w)"

definition ep_prepare_exit :: "env \<Rightarrow> endpoint \<Rightarrow> unit \<Rightarrow> exn option \<Rightarrow> world \<Rightarrow> (exn + unit) \<times> world" where
  "ep_prepare_exit E ep u raised w =
     (case ep of
        CopyDataDivEndpoint d \<Rightarrow> div_prepare_exit E d u raised w
      | CopyDataExternalEndpoint x \<Rightarrow> ext_prepare_exit x u raised w)"

definition ep_volume_operation_enter :: "env \<Rightarrow> endpoint \<Rightarrow> world \<Rightarrow> (exn + operation_scope) \<times> world" where
  "ep_volume_operation_enter E ep w =
     (case ep of
        CopyDataDivEndpoint d \<Rightarrow>
          (case div_volume_operation_enter E d w of
             (Inl e, w1) \<Rightarrow> (Inl e, w1)
           | (Inr v, w1) \<Rightarrow> (Inr (DivScope v), w1))
      | CopyDataExternalEndpoint x \<Rightarrow>
          (case ext_volume_operation_enter E x w of
             (Inl e, w1) \<Rightarrow> (Inl e, w1)
           | (Inr lease, w1) \<Rightarrow> (Inr (ExtScope lease), w1)))"

definition ep_volume_operation_exit :: "env \<Rightarrow> operation_scope \<Rightarrow> exn option \<Rightarrow> world \<Rightarrow> (exn + unit) \<times> world" where
  "ep_volume_operation_exit E sc raised w =
     (case sc of
        DivScope v \<Rightarrow> div_volume_operation_exit v raised w
      | ExtScope lease \<Rightarrow> ext_volume_operation_exit E lease raised w)"

section \<open>copy_data.py: the class Job\<close>

text \<open>
  The statuses of \<open>jobs.STATUS\<close>, which is not among the sources, are those the
  specification lists; a new job is pending (\<open>PENDING\<close>).
\<close>

datatype status = PENDING | RUNNING | ABORTED | FAILED | DONE

record Job =
  job_id :: pyval
  job_host_id :: pyval
  status :: status
  source :: endpoint
  dest :: endpoint
  operation :: "convert_args option"
  copy_bitmaps :: bool

text \<open>
  \<open>Job.__init__(self, job_id, host_id, source, destination, copy_bitmaps=False)\<close>.
  \<open>_create_endpoint\<close> pops \<open>endpoint_type\<close> out of the dict it is given, which is the
  caller's object. That shows when the caller passes one dict object as both source and
  destination: the second call then finds the key gone. So the two arguments are either
  two dict objects or one.
\<close>

datatype job_dicts =
    Two_dicts "(string \<times> pyval) list" "(string \<times> pyval) list"
  | One_dict "(string \<times> pyval) list"

definition Job_init ::
  "env \<Rightarrow> pyval \<Rightarrow> pyval \<Rightarrow> job_dicts \<Rightarrow> bool \<Rightarrow> world \<Rightarrow> (exn + Job) \<times> world" where
  "Job_init E jid host_id dicts bm w =
     (case create_endpoint E (case dicts of Two_dicts sp dp \<Rightarrow> sp | One_dict p \<Rightarrow> p)
             host_id False w of
        (Inl e, w1) \<Rightarrow> (Inl e, w1)
      | (Inr s, w1) \<Rightarrow>
          (case create_endpoint E
                  (case dicts of
                     Two_dicts sp dp \<Rightarrow> dp
                   | One_dict p \<Rightarrow> AList.delete ''endpoint_type'' p)
                  host_id True w1 of
             (Inl e, w2) \<Rightarrow> (Inl e, w2)
           | (Inr d, w2) \<Rightarrow>
               (Inr \<lparr>job_id = jid, job_host_id = host_id, status = PENDING, source = s, dest = d,
                     operation = None, copy_bitmaps = bm\<rparr>, w2)))"

text \<open>\<open>Job._abort(self)\<close>\<close>

definition Job_abort :: "Job \<Rightarrow> world \<Rightarrow> (exn + unit) \<times> Job \<times> world" where
  "Job_abort job w =
     (case operation job of
        None \<Rightarrow> (Inr (), job, w)
      | Some opn \<Rightarrow> (case extcall (Operation_abort opn) w of (r, w1) \<Rightarrow> (r, job, w1)))"

text \<open>\<open>Job._validate_copy_bitmaps(self, src_format, dst_format)\<close>\<close>

definition validate_copy_bitmaps :: "env \<Rightarrow> Job \<Rightarrow> string \<Rightarrow> string \<Rightarrow> exn + unit" where
  "validate_copy_bitmaps E job src_format dst_format =
     (if copy_bitmaps job \<and> FORMAT_RAW E \<in> set [src_format, dst_format]
      then bindE (ep_path E (source job)) (\<lambda>sp.
           bindE (ep_path E (dest job)) (\<lambda>dp.
           Inl (UnsupportedOperation
                  (Text ''Cannot copy bitmaps from/to volumes with raw format'') (Val sp) (Val dp))))
      else Inr ())"

text \<open>The formats the copy uses (lines 85 to 89 of \<open>_run\<close>).\<close>

definition effective_formats :: "env \<Rightarrow> Job \<Rightarrow> exn + string \<times> string" where
  "effective_formats E job =
     bindE (ep_is_invalid_vm_conf_disk E (source job)) (\<lambda>invalid.
       if invalid then Inr (FORMAT_RAW E, FORMAT_RAW E)
       else bindE (ep_qemu_format E (source job)) (\<lambda>sf.
            bindE (ep_qemu_format E (dest job)) (\<lambda>df. Inr (sf, df))))"

text \<open>
  The body of \<open>with self._dest.volume_operation():\<close>. The arguments of
  \<open>qemuimg.convert\<close> are evaluated in the order they are written; the operation it
  returns is identified with its arguments. (\<open>utils.stopwatch\<close> only measures and logs
  the time of \<open>run\<close>; it is left out.)
\<close>

definition copy_body :: "env \<Rightarrow> string \<Rightarrow> string \<Rightarrow> Job \<times> world \<Rightarrow> (exn + unit) \<times> Job \<times> world" where
  "copy_body E src_format dst_format jw =
     (case bindE (ep_path E (source (fst jw))) (\<lambda>sp.
           bindE (ep_path E (dest (fst jw))) (\<lambda>dp.
           bindE (ep_qcow2_compat E (dest (fst jw))) (\<lambda>compat.
           bindE (ep_backing_path E (dest (fst jw))) (\<lambda>bp.
           bindE (ep_backing_qemu_format E (dest (fst jw))) (\<lambda>bf.
           bindE (ep_recommends_unordered_writes E (dest (fst jw))) (\<lambda>uw.
           bindE (ep_requires_create E (dest (fst jw))) (\<lambda>cr.
           bindE (ep_zero_initialized E (dest (fst jw))) (\<lambda>z.
           Inr \<lparr>src_path = sp, dst_path = dp, srcFormat = src_format, dstFormat = dst_format,
                dstQcow2Compat = compat, backing = bp, backingFormat = bf, unordered_writes = uw,
                create = cr, bitmaps = copy_bitmaps (fst jw), target_is_zero = z\<rparr>)))))))) of
        Inl e \<Rightarrow> (Inl e, fst jw, snd jw)
      | Inr args \<Rightarrow>
          (case extcall (Qemuimg_convert args) (snd jw) of
             (Inl e, w1) \<Rightarrow> (Inl e, fst jw, w1)
           | (Inr u, w1) \<Rightarrow>
               (case extcall (Operation_run args) w1 of
                  (r, w2) \<Rightarrow> (r, (fst jw)\<lparr>operation := Some args\<rparr>, w2))))"

text \<open>The body of \<open>with self._source.prepare(), self._dest.prepare():\<close>.\<close>

definition run_body :: "env \<Rightarrow> Job \<times> world \<Rightarrow> (exn + unit) \<times> Job \<times> world" where
  "run_body E jw =
     (if status (fst jw) = ABORTED then (Inr (), fst jw, snd jw)
      else (case effective_formats E (fst jw) of
              Inl e \<Rightarrow> (Inl e, fst jw, snd jw)
            | Inr (src_format, dst_format) \<Rightarrow>
                (case validate_copy_bitmaps E (fst jw) src_format dst_format of
                   Inl e \<Rightarrow> (Inl e, fst jw, snd jw)
                 | Inr u \<Rightarrow>
                     with_cm (ep_volume_operation_enter E (dest (fst jw)))
                       (ep_volume_operation_exit E)
                       (copy_body E src_format dst_format) jw)))"

text \<open>
  \<open>Job._run(self)\<close>. \<open>guarded.context\<close>, which is not among the sources, is a context
  manager over the locks of both endpoints, the source's first.
\<close>

definition Job_run :: "env \<Rightarrow> Job \<Rightarrow> world \<Rightarrow> (exn + unit) \<times> Job \<times> world" where
  "Job_run E job w =
     (case bindE (ep_locks E (source job)) (\<lambda>ls.
           bindE (ep_locks E (dest job)) (\<lambda>ld. Inr (ls @ ld))) of
        Inl e \<Rightarrow> (Inl e, job, w)
      | Inr locks \<Rightarrow>
          with_cm (\<lambda>w0. extcall (Guarded_enter locks) w0)
            (\<lambda>u raised. extcall (Guarded_exit locks))
            (with_cm (ep_prepare_enter E (source job)) (ep_prepare_exit E (source job))
               (with_cm (ep_prepare_enter E (dest job)) (ep_prepare_exit E (dest job))
                  (run_body E)))
            (job, w))"

section \<open>disklease.py: the host status constants\<close>

definition HOST_STATUS_UNAVAILABLE :: string where
  "HOST_STATUS_UNAVAILABLE = ''unavailable''"

definition HOST_STATUS_UNKNOWN :: string where
  "HOST_STATUS_UNKNOWN = ''unknown''"

definition HOST_STATUS_FREE :: string where
  "HOST_STATUS_FREE = ''free''"

definition HOST_STATUS_LIVE :: string where
  "HOST_STATUS_LIVE = ''live''"

definition HOST_STATUS_FAIL :: string where
  "HOST_STATUS_FAIL = ''fail''"

definition HOST_STATUS_DEAD :: string where
  "HOST_STATUS_DEAD = ''dead''"

text \<open>
  Modelled from the spec: the function that classifies a host from its renewal telemetry
  is missing from the sources, which declare the six status constants and nothing that
  computes one. The specification gives it as a function of the time since the last
  renewal, in seconds, and of a flag that the call of the primitive failed:
  \<open><80s \<rightarrow> live\<close>, \<open>80\<endash>140s \<rightarrow> fail\<close>, \<open>>140s \<rightarrow> dead\<close>, no lease record \<open>\<rightarrow> free\<close>,
  primitive call failed \<open>\<rightarrow> unavailable\<close>. The elapsed time is \<open>None\<close> when there is
  no lease record for the host id.
\<close>

definition host_status :: "bool \<Rightarrow> real option \<Rightarrow> string" where
  "host_status primitive_failed elapsed =
     (if primitive_failed then HOST_STATUS_UNAVAILABLE
      else (case elapsed of
              None \<Rightarrow> HOST_STATUS_FREE
            | Some t \<Rightarrow>
                (if t < 80 then HOST_STATUS_LIVE
                 else if t \<le> 140 then HOST_STATUS_FAIL
                 else HOST_STATUS_DEAD)))"

section \<open>Reading a trace\<close>

text \<open>The calls made between two states of the world.\<close>

definition new_events :: "world \<Rightarrow> world \<Rightarrow> (call \<times> reply) list" where
  "new_events w w' = drop (length (trace w)) (trace w')"

text \<open>The values written to the value buffer: the data of the set_lvb calls that succeeded.\<close>

definition lvb_write :: "call \<times> reply \<Rightarrow> lvb_data option" where
  "lvb_write cr =
     (case cr of
        (Sanlock_set_lvb sd n disks data, Ok) \<Rightarrow> Some data
      | _ \<Rightarrow> None)"

definition lvb_writes :: "(call \<times> reply) list \<Rightarrow> lvb_data list" where
  "lvb_writes tr = List.map_filter lvb_write tr"

text \<open>
  The generation a reader finds in the value buffer: the integer value of the entry
  \<open>gen\<close> of the document.
\<close>

definition lvb_generation :: "lvb_data \<Rightarrow> exn + int" where
  "lvb_generation d = (case d of Json kvs \<Rightarrow> bindE (getitem (Dict kvs) ''gen'') py_int)"

text \<open>Whether the lease is held after a trace: acquired, and not released since.\<close>

definition holds_after :: "bool \<Rightarrow> call \<times> reply \<Rightarrow> bool" where
  "holds_after h cr =
     (case cr of
        (Sanlock_acquire sd n disks slkfd lvb, Ok) \<Rightarrow> True
      | (Sanlock_release sd n disks slkfd, Ok) \<Rightarrow> False
      | _ \<Rightarrow> h)"

definition lease_held :: "(call \<times> reply) list \<Rightarrow> bool" where
  "lease_held tr = foldl holds_after False tr"

definition is_sanlock :: "call \<Rightarrow> bool" where
  "is_sanlock c =
     (case c of
        Sanlock_register \<Rightarrow> True
      | Sanlock_acquire sd n disks slkfd lvb \<Rightarrow> True
      | Sanlock_release sd n disks slkfd \<Rightarrow> True
      | Sanlock_set_lvb sd n disks data \<Rightarrow> True
      | _ \<Rightarrow> False)"

definition is_release :: "call \<Rightarrow> bool" where
  "is_release c = (case c of Sanlock_release sd n disks slkfd \<Rightarrow> True | _ \<Rightarrow> False)"

text \<open>
  Entering the destination's \<open>volume_operation()\<close>: the first thing the external
  endpoint does there is to log \<open>Starting operation\<close>, the internal endpoint enters the
  volume's own scope. Starting the copy is the call of \<open>qemuimg.convert\<close>.
\<close>

definition enters_volume_operation :: "call \<Rightarrow> bool" where
  "enters_volume_operation c =
     (case c of
        Log_info logger m \<Rightarrow> logger = ''storage.sdm.copy_data'' \<and> m = Text ''Starting operation''
      | Volume_operation_enter v g \<Rightarrow> True
      | _ \<Rightarrow> False)"

definition starts_copy :: "call \<Rightarrow> bool" where
  "starts_copy c = (case c of Qemuimg_convert a \<Rightarrow> True | Operation_run a \<Rightarrow> True | _ \<Rightarrow> False)"

definition is_abort :: "call \<Rightarrow> bool" where
  "is_abort c = (case c of Operation_abort a \<Rightarrow> True | _ \<Rightarrow> False)"

text \<open>A sequence of calls on one DiskLease; an exception ends a call, not the sequence.\<close>

datatype lease_op = Acquire | Update_generation int | Release

definition lease_step :: "pyobject \<Rightarrow> pyobject \<times> world \<Rightarrow> lease_op \<Rightarrow> pyobject \<times> world" where
  "lease_step cls sw opn =
     (case opn of
        Acquire \<Rightarrow> snd (acquire cls (fst sw) (snd sw))
      | Update_generation d \<Rightarrow> snd (update_generation cls (fst sw) d (snd sw))
      | Release \<Rightarrow> (fst sw, snd (release cls (fst sw) (snd sw))))"

definition lease_run :: "pyobject \<Rightarrow> pyobject \<times> world \<Rightarrow> lease_op list \<Rightarrow> pyobject \<times> world" where
  "lease_run cls sw ops = foldl (lease_step cls) sw ops"

definition nonneg_op :: "lease_op \<Rightarrow> bool" where
  "nonneg_op opn = (case opn of Update_generation d \<Rightarrow> 0 \<le> d | _ \<Rightarrow> True)"

text \<open>
  \<open>only Q w w'\<close>: the world went from \<open>w\<close> to \<open>w'\<close> by calls that all satisfy \<open>Q\<close>.
\<close>

definition only :: "(call \<times> reply \<Rightarrow> bool) \<Rightarrow> world \<Rightarrow> world \<Rightarrow> bool" where
  "only Q w w' = (\<exists>tr. trace w' = trace w @ tr \<and> list_all Q tr)"

definition takes_lock :: "call \<Rightarrow> bool" where
  "takes_lock c =
     (case c of
        Sanlock_register \<Rightarrow> True
      | Sanlock_acquire sd n disks slkfd lvb \<Rightarrow> True
      | Rm_acquireResource ns n m \<Rightarrow> True
      | Guarded_enter ls \<Rightarrow> True
      | _ \<Rightarrow> False)"

text \<open>
  A world in which every coming call succeeds: no outcome left in the script is an
  exception.
\<close>

definition calls_succeed :: "world \<Rightarrow> bool" where
  "calls_succeed w = list_all (\<lambda>r. r = Ok) (script w)"

section \<open>A small storage, for concrete runs\<close>

definition demo_volume :: volume where
  "demo_volume =
     \<lparr>volUUID = PStr ''vol-1'', getVolumePath = PStr ''/rhev/sd-1/img-1/vol-1'', getFormat = 4,
      getParentVolume = None, requires_create = False, zero_initialized = False\<rparr>"

definition demo_manifest :: manifest where
  "demo_manifest =
     \<lparr>hasVolumeLeases = True, qcow2_compat = PStr ''1.1'',
      recommends_unordered_writes = (\<lambda>f. f = 5),
      produceVolume = (\<lambda>img vol. Inr (demo_volume\<lparr>volUUID := vol\<rparr>)),
      lease_info = (\<lambda>lid. Inr \<lparr>resource = PStr ''lease-1'', info_path = PStr ''/dev/sd-1/xleases'',
                                 info_offset = PInt 3145728\<rparr>)\<rparr>"

definition demo_required :: "bool \<Rightarrow> pyval \<Rightarrow> exn + pyval" where
  "demo_required required v =
     (if required \<and> v = PNone then Inl (ValueError (Text ''required property is not set'')) else Inr v)"

definition demo_env :: env where
  "demo_env =
     \<lparr>produce_manifest = (\<lambda>sd. Inr demo_manifest),
      STORAGE = ''00_storage'',
      IMAGE_NAMESPACE = ''01_img'',
      getNamespace = (\<lambda>ns sd. ns @ ''_'' @ (case sd of PStr s \<Rightarrow> s | _ \<Rightarrow> [])),
      fmt2str = (\<lambda>f. if f = 5 then ''raw'' else ''qcow2''),
      FORMAT_RAW = ''raw'',
      invalid_vm_conf_disk = (\<lambda>v. False),
      getBackingVolumePath = (\<lambda>img vol. vol),
      prop_UUID = demo_required,
      prop_Integer = demo_required,
      prop_Boolean = (\<lambda>v. Inr (if v = PNone then PBool False else v)),
      prop_String = demo_required,
      AbstractLock_attrs = []\<rparr>"

definition demo_world :: world where
  "demo_world = \<lparr>script = [], trace = [], fd = PInt 7\<rparr>"

definition demo_div_params :: "(string \<times> pyval) list" where
  "demo_div_params =
     [(''endpoint_type'', PStr ''div''), (''sd_id'', PStr ''sd-1''), (''img_id'', PStr ''img-1''),
      (''vol_id'', PStr ''vol-1'')]"

definition demo_ext_params :: "(string \<times> pyval) list" where
  "demo_ext_params =
     [(''endpoint_type'', PStr ''external''), (''path'', PStr ''/dev/rbd0''),
      (''lease_sd_id'', PStr ''sd-1''), (''lease_id'', PStr ''lease-1'')]"

definition demo_lease :: pyobject where
  "demo_lease =
     DiskLease_init (PStr ''lease-1'') (PStr ''/dev/sd-1/xleases'') (PInt 3145728) (PStr ''sd-1'') (PInt 1)"

definition demo_div :: div_endpoint where
  "demo_div =
     \<lparr>sd_id = PStr ''sd-1'', img_id = PStr ''img-1'', vol_id = PStr ''vol-1'', generation = PNone,
      prepared = PBool False, div_host_id = PInt 1, writable = False\<rparr>"

definition demo_ext :: ext_endpoint where
  "demo_ext =
     \<lparr>ext_path = PStr ''/dev/rbd0'', lease_sd_id = PStr ''sd-1'', lease_id = PStr ''lease-1'',
      ext_host_id = PInt 1\<rparr>"

definition demo_job :: Job where
  "demo_job =
     \<lparr>job_id = PStr ''job-1'', job_host_id = PInt 1, status = PENDING,
      source = CopyDataDivEndpoint demo_div, dest = CopyDataExternalEndpoint demo_ext,
      operation = None, copy_bitmaps = False\<rparr>"

section \<open>What the proofs keep track of\<close>

text \<open>
  What holds of a DiskLease and the world after any sequence of calls that started in the
  world \<open>w0\<close>: the entry \<open>gen\<close> is the initial string \<open>'0'\<close> or an integer that is not
  negative, and the generations written since \<open>w0\<close> never decrease and do not exceed it.
\<close>

definition lease_inv :: "world \<Rightarrow> pyobject \<times> world \<Rightarrow> bool" where
  "lease_inv w0 sw =
     (\<exists>g m tr ns.
        map_of (fst sw) ''_generation'' = Some (Dict [(''gen'', g)]) \<and>
        (g = PStr ''0'' \<and> m = 0 \<or> g = PInt m \<and> 0 \<le> m) \<and>
        trace (snd sw) = trace w0 @ tr \<and>
        map lvb_generation (lvb_writes tr) = map Inr ns \<and> sorted ns \<and> (\<forall>n\<in>set ns. n \<le> m))"

text \<open>
  The calls a job makes outside the destination's \<open>volume_operation()\<close> scope: none of
  the primitive, none that enters the scope, none that starts the copy.
\<close>

definition outer_call :: "call \<Rightarrow> bool" where
  "outer_call c = (\<not> is_sanlock c \<and> \<not> enters_volume_operation c \<and> \<not> starts_copy c)"




section \<open>The calls an operation makes\<close>

lemma only_refl: "only Q w w"
  by (simp add: only_def)

lemma only_trans: "only Q w w1 \<Longrightarrow> only Q w1 w2 \<Longrightarrow> only Q w w2"
  by (auto simp: only_def)

lemma only_mono: "only Q w w' \<Longrightarrow> (\<And>cr. Q cr \<Longrightarrow> Q' cr) \<Longrightarrow> only Q' w w'"
  by (auto simp: only_def list_all_iff)

lemma only_extcall: "(\<And>r. Q (c, r)) \<Longrightarrow> only Q w (snd (extcall c w))"
  by (auto simp: only_def extcall_def split: list.splits)

lemma only_log: "Q (Log_info l m, Ok) \<Longrightarrow> only Q w (log_info l m w)"
  by (simp add: only_def log_info_def)

lemma extcall_succeeds:
  assumes "calls_succeed w"
  shows "fst (extcall c w) = Inr ()" and "calls_succeed (snd (extcall c w))"
    and "trace (snd (extcall c w)) = trace w @ [(c, Ok)]"
  using assms by (auto simp: extcall_def calls_succeed_def split: list.splits reply.splits)



lemma except_Sanlock_world: "snd (except_Sanlock cls self mk r) = snd r"
  by (auto simp: except_Sanlock_def split: prod.splits sum.splits)

lemma acquire_call_is_acquire:
  "acquire_call cls self = Inr (lease, c) \<Longrightarrow> \<exists>sd n disks slkfd. c = Sanlock_acquire sd n disks slkfd True"
  by (auto simp: acquire_call_def bindE_def split: sum.splits)

lemma release_call_is_release:
  "release_call cls self = Inr c \<Longrightarrow> \<exists>sd n disks slkfd. c = Sanlock_release sd n disks slkfd"
  by (auto simp: release_call_def bindE_def split: sum.splits)

lemma only_set_lvb:
  assumes "\<And>sd n disks r. Q (Sanlock_set_lvb sd n disks data, r)"
  shows "only Q w (snd (set_lvb cls self lease data w))"
  using assms
  by (auto simp: set_lvb_def except_Sanlock_world only_refl intro!: only_extcall split: sum.splits)

lemma only_persist_generation:
  assumes "map_of self ''_generation'' = Some (Dict kvs)"
    and "\<And>sd n disks r. Q (Sanlock_set_lvb sd n disks (Json kvs), r)"
  shows "only Q w (snd (persist_generation cls self w))"
  using assms
  by (auto simp: persist_generation_def bindE_def getattr_def json_dumps_def only_refl
      intro!: only_set_lvb split: sum.splits)

lemma only_acquire:
  assumes "map_of self ''_generation'' = Some (Dict kvs)"
    and "\<And>sd n disks r. Q (Sanlock_set_lvb sd n disks (Json kvs), r)"
    and "\<And>r. Q (Sanlock_register, r)"
    and "\<And>sd n disks slkfd r. Q (Sanlock_acquire sd n disks slkfd True, r)"
  shows "only Q w (snd (snd (acquire cls self w)))"
proof -
  define w1 where "w1 = snd (extcall Sanlock_register w)"
  define self1 where "self1 = setattr self ''_sanlock_fd'' (Val (fd w1))"
  have o1: "only Q w w1" unfolding w1_def using assms(3) by (rule only_extcall)
  have g1: "map_of self1 ''_generation'' = Some (Dict kvs)"
    using assms(1) by (simp add: self1_def setattr_def update_conv')
  have o3: "\<And>w2. only Q w2 (snd (persist_generation cls self1 w2))"
    using g1 assms(2) by (rule only_persist_generation)
  have o2: "\<And>lease c. acquire_call cls self1 = Inr (lease, c) \<Longrightarrow> only Q w1 (snd (extcall c w1))"
    using assms(4) acquire_call_is_acquire by (blast intro: only_extcall)
  obtain r1 w1' where e1: "except_Sanlock cls self
             (\<lambda>sd e. AcquireLockFailure sd (errno e) (Text ''Cannot register to sanlock'') (strerror e))
             (extcall Sanlock_register w) = (r1, w1')"
    by (cases "except_Sanlock cls self
             (\<lambda>sd e. AcquireLockFailure sd (errno e) (Text ''Cannot register to sanlock'') (strerror e))
             (extcall Sanlock_register w)") auto
  have w1': "w1' = w1"
    using arg_cong [OF e1, of snd] by (simp add: except_Sanlock_world w1_def)
  show ?thesis
  proof (cases r1)
    case (Inl e)
    then show ?thesis using e1 w1' o1 by (simp add: acquire_def)
  next
    case (Inr u)
    show ?thesis
    proof (cases "acquire_call cls self1")
      case (Inl e)
      then show ?thesis using e1 w1' o1 Inr by (simp add: acquire_def self1_def)
    next
      case Inr2: (Inr lc)
      obtain lease c where lc: "lc = (lease, c)" by (cases lc) auto
      define w2 where "w2 = snd (extcall c w1)"
      have o12: "only Q w1 w2" unfolding w2_def using o2 Inr2 lc by simp
      obtain r2 w2' where e2: "except_Sanlock cls self1
                       (\<lambda>sd e. AcquireLockFailure sd (errno e) (Format ''Cannot acquire %s'' [lease]) (strerror e))
                       (extcall c w1) = (r2, w2')"
        by (cases "except_Sanlock cls self1
                       (\<lambda>sd e. AcquireLockFailure sd (errno e) (Format ''Cannot acquire %s'' [lease]) (strerror e))
                       (extcall c w1)") auto
      have w2': "w2' = w2"
        using arg_cong [OF e2, of snd] by (simp add: except_Sanlock_world w2_def)
      have "only Q w w2" using o1 o12 by (rule only_trans)
      moreover have "only Q w (snd (persist_generation cls self1 w2))"
        using \<open>only Q w w2\<close> o3 [of w2] by (rule only_trans)
      ultimately show ?thesis
        using e1 w1' Inr Inr2 lc e2 w2'
        by (cases r2) (auto simp: acquire_def self1_def [symmetric] split: prod.splits)
    qed
  qed
qed

lemma only_release:
  assumes "\<And>sd n disks slkfd r. Q (Sanlock_release sd n disks slkfd, r)"
  shows "only Q w (snd (release cls self w))"
  using assms release_call_is_release [of cls self]
  by (auto simp: release_def except_Sanlock_world only_refl intro!: only_extcall split: sum.splits)

section \<open>The generation of a DiskLease\<close>

lemma int_of_string_zero: "int_of_string ''0'' = Inr 0"
  by (simp add: int_of_string_def is_digit_def digits_val_def)

lemma update_generation_on_int:
  assumes "map_of self ''_generation'' = Some (Dict kvs)" and "map_of kvs ''gen'' = Some (PInt n)"
  shows "update_generation cls self d w = (Inl (TypeError ''unsupported operand type(s) for +''), self, w)"
  using assms by (simp add: update_generation_def getattr_def getitem_def add_str_def bindE_def)

lemma update_generation_first:
  assumes "map_of self ''_generation'' = Some (Dict [(''gen'', PStr ''0'')])"
  shows "fst (snd (update_generation cls self d w)) = setattr self ''_generation'' (Dict [(''gen'', PInt d)])"
  using assms
  by (simp add: update_generation_def getattr_def getitem_def add_str_def bindE_def py_int_def
      int_of_string_zero setitem_def Let_def split: prod.splits)

lemma acquire_generation:
  "map_of (fst (snd (acquire cls self w))) ''_generation'' = map_of self ''_generation''"
  apply (simp add: acquire_def Let_def split: prod.splits sum.splits)
  apply (auto simp: setattr_def update_conv')
  done

text \<open>
  C3. On a lease that is held, the second call of \<open>update_generation\<close> raises TypeError
  and writes nothing: the first call has stored an \<open>int\<close> under \<open>gen\<close>, and the
  argument of the log call adds a string to it. This holds for all deltas, whatever the
  primitive answers. The sum of the deltas is therefore never persisted past the first.
\<close>

theorem update_generation_twice_raises:
  "(case acquire cls (DiskLease_init r p off sd h) w of
      (r0, s0, w0) \<Rightarrow>
        (case update_generation cls s0 d1 w0 of
           (r1, s1, w1) \<Rightarrow>
             update_generation cls s1 d2 w1 =
               (Inl (TypeError ''unsupported operand type(s) for +''), s1, w1)))"
proof -
  obtain r0 s0 w0 where a: "acquire cls (DiskLease_init r p off sd h) w = (r0, s0, w0)"
    by (cases "acquire cls (DiskLease_init r p off sd h) w") auto
  obtain r1 s1 w1 where u: "update_generation cls s0 d1 w0 = (r1, s1, w1)"
    by (cases "update_generation cls s0 d1 w0") auto
  have g0: "map_of s0 ''_generation'' = Some (Dict [(''gen'', PStr ''0'')])"
    using acquire_generation [of cls "DiskLease_init r p off sd h" w] a
    by (simp add: DiskLease_init_def)
  have "s1 = setattr s0 ''_generation'' (Dict [(''gen'', PInt d1)])"
    using update_generation_first [OF g0, of cls d1 w0] u by simp
  then have g1: "map_of s1 ''_generation'' = Some (Dict [(''gen'', PInt d1)])"
    by (simp add: setattr_def update_conv')
  show ?thesis
    using update_generation_on_int [OF g1, of d1 cls d2 w1] a u by simp
qed

section \<open>Failure of DiskLease.acquire\<close>

text \<open>
  C4. When \<open>sanlock.register()\<close> or \<open>sanlock.acquire()\<close> raises SanlockException,
  \<open>acquire\<close> raises AttributeError, not AcquireLockFailure: the handler reads
  \<open>self._sdUUID\<close>, which \<open>__init__\<close> never assigns (it assigns \<open>_sd_id\<close>), as long as
  the base class does not provide an attribute of that name.
\<close>

theorem acquire_failure_raises_AttributeError:
  assumes "map_of cls ''_sdUUID'' = None"
  shows "fst (acquire cls (DiskLease_init (PStr r) p off (PStr sd) h)
                (w\<lparr>script := Raises (SanlockException n m) # rs\<rparr>)) = Inl (AttributeError ''_sdUUID'') \<and>
         fst (acquire cls (DiskLease_init (PStr r) p off (PStr sd) h)
                (w\<lparr>script := Ok # Raises (SanlockException n m) # rs\<rparr>)) = Inl (AttributeError ''_sdUUID'')"
  using assms
  by (simp add: acquire_def acquire_call_def DiskLease_init_def except_Sanlock_def extcall_def
      getattr_def setattr_def bindE_def lease_name_def lease_path_def lease_offset_def encode_def
      Let_def)

theorem acquire_failure_raises_AttributeError_witness:
  "map_of ([] :: pyobject) ''_sdUUID'' = None \<and>
   fst (acquire [] demo_lease
          (demo_world\<lparr>script := [Raises (SanlockException 5 ''Input/output error'')]\<rparr>))
     = Inl (AttributeError ''_sdUUID'') \<and>
   fst (acquire [] demo_lease
          (demo_world\<lparr>script := [Ok, Raises (SanlockException 5 ''Input/output error'')]\<rparr>))
     = Inl (AttributeError ''_sdUUID'')"
  using acquire_failure_raises_AttributeError
    [where cls = "[]" and r = "''lease-1''" and p = "PStr ''/dev/sd-1/xleases''"
       and off = "PInt 3145728" and sd = "''sd-1''" and h = "PInt 1" and w = demo_world
       and n = 5 and m = "''Input/output error''" and rs = "[]"]
  by (simp add: demo_lease_def)

text \<open>
  With an attribute \<open>_sdUUID\<close> the handlers would raise what they were written to raise.
\<close>

lemma acquire_failure_with_sdUUID:
  assumes "map_of cls ''_sdUUID'' = Some v"
  shows "fst (acquire cls (DiskLease_init (PStr r) p off (PStr sd) h)
                (w\<lparr>script := Raises (SanlockException n m) # rs\<rparr>))
         = Inl (AcquireLockFailure v n (Text ''Cannot register to sanlock'') m)"
  using assms
  by (simp add: acquire_def DiskLease_init_def except_Sanlock_def extcall_def getattr_def)

section \<open>The locks of an internal-volume endpoint\<close>

text \<open>
  C6. The property \<open>locks\<close> of an internal-volume endpoint returns, in this order, the
  lock of the storage domain in shared mode, the lock of the image (exclusive when the
  endpoint is writable, shared otherwise) and then a volume lease exactly when the
  endpoint is writable and the storage domain has volume leases. It raises only when the
  endpoint is writable and the manifest of the domain cannot be produced.
\<close>

theorem div_locks_order:
  "(case div_locks E ep of
      Inl e \<Rightarrow> writable ep \<and> produce_manifest E (sd_id ep) = Inl e
    | Inr ls \<Rightarrow>
        take 2 ls =
          [Lock (STORAGE E) (sd_id ep) SHARED,
           Lock (getNamespace E (IMAGE_NAMESPACE E) (sd_id ep)) (img_id ep)
             (if writable ep then EXCLUSIVE else SHARED)] \<and>
        drop 2 ls =
          (if writable ep \<and> (\<exists>dom. produce_manifest E (sd_id ep) = Inr dom \<and> hasVolumeLeases dom)
           then [VolumeLease (div_host_id ep) (sd_id ep) (img_id ep) (vol_id ep)]
           else []))"
  by (cases "produce_manifest E (sd_id ep)") (auto simp: div_locks_def Let_def bindE_def)

section \<open>The status of a host\<close>

text \<open>
  C8. The status is a function of the elapsed time and the failure flag alone: under 80
  seconds live, from 80 to 140 seconds fail, over 140 seconds dead, no lease record free,
  a failed call unavailable; both boundaries, 80 and 140 seconds, belong to fail, and the
  status constants of the source are pairwise different.
\<close>

theorem host_status_classification:
  "(\<forall>t. t < 80 \<longrightarrow> host_status False (Some t) = HOST_STATUS_LIVE) \<and>
   (\<forall>t. 80 \<le> t \<and> t \<le> 140 \<longrightarrow> host_status False (Some t) = HOST_STATUS_FAIL) \<and>
   (\<forall>t. 140 < t \<longrightarrow> host_status False (Some t) = HOST_STATUS_DEAD) \<and>
   host_status False None = HOST_STATUS_FREE \<and>
   (\<forall>e. host_status True e = HOST_STATUS_UNAVAILABLE) \<and>
   host_status False (Some 80) = HOST_STATUS_FAIL \<and>
   host_status False (Some 140) = HOST_STATUS_FAIL \<and>
   distinct [HOST_STATUS_LIVE, HOST_STATUS_FAIL, HOST_STATUS_DEAD, HOST_STATUS_FREE,
             HOST_STATUS_UNAVAILABLE, HOST_STATUS_UNKNOWN]"
  by (simp add: host_status_def HOST_STATUS_LIVE_def HOST_STATUS_FAIL_def HOST_STATUS_DEAD_def
      HOST_STATUS_FREE_def HOST_STATUS_UNAVAILABLE_def HOST_STATUS_UNKNOWN_def)

theorem host_status_classification_witness:
  "host_status False (Some 79.5) = ''live'' \<and> host_status False (Some 80) = ''fail'' \<and>
   host_status False (Some 100) = ''fail'' \<and> host_status False (Some 140) = ''fail'' \<and>
   host_status False (Some 140.5) = ''dead'' \<and> host_status False None = ''free'' \<and>
   host_status True (Some 10) = ''unavailable''"
  using host_status_classification
  by (simp add: HOST_STATUS_LIVE_def HOST_STATUS_FAIL_def HOST_STATUS_DEAD_def
      HOST_STATUS_FREE_def HOST_STATUS_UNAVAILABLE_def)

section \<open>Abort before the copy has started\<close>

text \<open>
  C10. On a job whose operation handle is still None, \<open>_abort\<close> raises nothing, calls
  nothing and leaves the job, the handle included, as it was; and a job that
  \<open>__init__\<close> has just built has the handle None.
\<close>

theorem abort_before_start:
  "(operation job = None \<longrightarrow> Job_abort job w = (Inr (), job, w)) \<and>
   (\<forall>j w1. Job_init E jid h dicts bm w0 = (Inr j, w1) \<longrightarrow> operation j = None)"
  by (auto simp: Job_abort_def Job_init_def split: prod.splits sum.splits)

theorem abort_before_start_witness:
  "Job_init demo_env (PStr ''job-1'') (PInt 1) (Two_dicts demo_div_params demo_ext_params) False demo_world =
     (Inr demo_job, demo_world\<lparr>trace := [(AppropriateDevice (PStr ''/dev/rbd0'') PNone ''rbd'', Ok)]\<rparr>) \<and>
   operation demo_job = None \<and>
   Job_abort demo_job demo_world = (Inr (), demo_job, demo_world)"
proof -
  have i: "Job_init demo_env (PStr ''job-1'') (PInt 1) (Two_dicts demo_div_params demo_ext_params) False demo_world =
     (Inr demo_job, demo_world\<lparr>trace := [(AppropriateDevice (PStr ''/dev/rbd0'') PNone ''rbd'', Ok)]\<rparr>)"
    by (simp add: Job_init_def create_endpoint_def demo_div_params_def demo_ext_params_def
        dict_pop_def CopyDataDivEndpoint_init_def CopyDataExternalEndpoint_init_def demo_env_def
        bindE_def dict_get_def demo_required_def extcall_def demo_world_def demo_job_def
        demo_div_def demo_ext_def)
  have n: "operation demo_job = None"
    using abort_before_start [where job = demo_job and w = demo_world and E = demo_env
        and jid = "PStr ''job-1''" and h = "PInt 1"
        and dicts = "Two_dicts demo_div_params demo_ext_params" and bm = False
        and ?w0.0 = demo_world] i
    by blast
  have "Job_abort demo_job demo_world = (Inr (), demo_job, demo_world)"
    using abort_before_start [where job = demo_job and w = demo_world and E = demo_env
        and jid = "PStr ''job-1''" and h = "PInt 1"
        and dicts = "Two_dicts demo_div_params demo_ext_params" and bm = False
        and ?w0.0 = demo_world] n
    by blast
  then show ?thesis using i n by simp
qed

text \<open>
  With one dict object for both endpoints no job is built: the second
  \<open>_create_endpoint\<close> raises KeyError.
\<close>

lemma Job_init_one_dict:
  "fst (Job_init demo_env (PStr ''job-1'') (PInt 1) (One_dict demo_div_params) False demo_world) =
     Inl (KeyError ''endpoint_type'')"
  by (simp add: Job_init_def create_endpoint_def demo_div_params_def dict_pop_def
      CopyDataDivEndpoint_init_def demo_env_def bindE_def dict_get_def demo_required_def)

section \<open>The kinds of endpoint\<close>

lemma ext_init_trace:
  "list_all (\<lambda>cr. \<not> takes_lock (fst cr)) (new_events w (snd (CopyDataExternalEndpoint_init E params h w)))"
  by (auto simp: CopyDataExternalEndpoint_init_def extcall_def new_events_def takes_lock_def
      split: sum.splits list.splits reply.splits)

text \<open>
  C5, as the code has it. The endpoint type that builds an internal-volume endpoint is
  \<open>div\<close>; \<open>external\<close> builds an external-device endpoint; every other value, \<open>volume\<close>
  among them, raises ValueError. In no case is a lock or a lease taken.
\<close>

theorem create_endpoint_dispatch:
  assumes "dict_pop params ''endpoint_type'' = Inr (t, rest)"
  shows "(t = PStr ''div'' \<longrightarrow>
            create_endpoint E params h wr w =
              (map_sum id CopyDataDivEndpoint (CopyDataDivEndpoint_init E rest h wr), w)) \<and>
         (t = PStr ''external'' \<longrightarrow>
            create_endpoint E params h wr w =
              (case CopyDataExternalEndpoint_init E rest h w of
                 (r, w1) \<Rightarrow> (map_sum id CopyDataExternalEndpoint r, w1))) \<and>
         (t \<noteq> PStr ''div'' \<and> t \<noteq> PStr ''external'' \<longrightarrow>
            create_endpoint E params h wr w =
              (Inl (ValueError (Format ''Invalid or unsupported endpoint %r'' [Dict rest])), w)) \<and>
         list_all (\<lambda>cr. \<not> takes_lock (fst cr)) (new_events w (snd (create_endpoint E params h wr w)))"
proof -
  have "list_all (\<lambda>cr. \<not> takes_lock (fst cr)) (new_events w (snd (create_endpoint E params h wr w)))"
    using assms ext_init_trace [of w E rest h]
    by (auto simp: create_endpoint_def new_events_def split: sum.splits prod.splits)
  then show ?thesis
    using assms by (auto simp: create_endpoint_def split: sum.splits prod.splits)
qed

theorem create_endpoint_dispatch_witness:
  "create_endpoint demo_env demo_div_params (PInt 1) True demo_world =
     (Inr (CopyDataDivEndpoint (demo_div\<lparr>writable := True\<rparr>)), demo_world) \<and>
   fst (create_endpoint demo_env demo_ext_params (PInt 1) True demo_world) =
     Inr (CopyDataExternalEndpoint demo_ext)"
proof -
  have "create_endpoint demo_env demo_div_params (PInt 1) True demo_world =
     (Inr (CopyDataDivEndpoint (demo_div\<lparr>writable := True\<rparr>)), demo_world)"
    using create_endpoint_dispatch [of demo_div_params "PStr ''div''" "tl demo_div_params"
        demo_env "PInt 1" True demo_world]
    by (simp add: demo_div_params_def dict_pop_def CopyDataDivEndpoint_init_def demo_env_def
        bindE_def dict_get_def demo_required_def demo_div_def)
  moreover have "fst (create_endpoint demo_env demo_ext_params (PInt 1) True demo_world) =
     Inr (CopyDataExternalEndpoint demo_ext)"
    using create_endpoint_dispatch [of demo_ext_params "PStr ''external''" "tl demo_ext_params"
        demo_env "PInt 1" True demo_world]
    by (simp add: demo_ext_params_def dict_pop_def CopyDataExternalEndpoint_init_def demo_env_def
        bindE_def dict_get_def demo_required_def demo_ext_def extcall_def demo_world_def)
  ultimately show ?thesis by simp
qed

text \<open>
  C5, as the specification has it, fails: the endpoint type \<open>volume\<close> builds no endpoint.
\<close>

theorem create_endpoint_volume_counterexample:
  "fst (create_endpoint demo_env
          [(''endpoint_type'', PStr ''volume''), (''sd_id'', PStr ''sd-1''), (''img_id'', PStr ''img-1''),
           (''vol_id'', PStr ''vol-1'')] (PInt 1) True demo_world)
   = Inl (ValueError (Format ''Invalid or unsupported endpoint %r''
            [Dict [(''sd_id'', PStr ''sd-1''), (''img_id'', PStr ''img-1''), (''vol_id'', PStr ''vol-1'')]]))"
  by (simp add: create_endpoint_def dict_pop_def)

section \<open>The lease of an external destination\<close>

lemma demo_enter:
  "ext_volume_operation_enter demo_env demo_ext demo_world =
    (Inr (setattr demo_lease ''_sanlock_fd'' (Val (PInt 7))),
     demo_world\<lparr>trace :=
       [(Log_info ''storage.sdm.copy_data'' (Text ''Starting operation''), Ok),
        (Rm_acquireResource ''00_storage'' (PStr ''sd-1'') SHARED, Ok),
        (Rm_releaseResource ''00_storage'' (PStr ''sd-1'') SHARED, Ok),
        (Sanlock_register, Ok),
        (Sanlock_acquire ''sd-1'' ''lease-1'' [(PStr ''/dev/sd-1/xleases'', PInt 3145728)] (PInt 7) True, Ok),
        (Sanlock_set_lvb ''sd-1'' ''lease-1'' [(PStr ''/dev/sd-1/xleases'', PInt 3145728)]
           (Json [(''gen'', PStr ''0'')]), Ok),
        (Log_info ''storage.sdm.copy_data'' (Text ''acquire disk lease''), Ok)]\<rparr>)"
  by (simp add: ext_volume_operation_enter_def ext_lease_info_def with_cm_def extcall_def
      log_info_def demo_env_def demo_ext_def demo_world_def demo_manifest_def bindE_def
      demo_lease_def DiskLease_init_def acquire_def acquire_call_def except_Sanlock_def
      getattr_def setattr_def lease_name_def lease_path_def lease_offset_def encode_def
      persist_generation_def json_dumps_def set_lvb_def lease_args_def Let_def)

lemma ext_volume_operation_body_raises:
  assumes "ext_volume_operation_enter E ep w = (Inr lease, w1)"
    and "body (s, w1) = (Inl e, s2, w2)"
  shows "ext_volume_operation E ep body (s, w) = (Inl e, s2, w2)"
  using assms by (simp add: ext_volume_operation_def with_cm_def ext_volume_operation_exit_def)

text \<open>
  C1. The scope acquires the lease before it yields, and when the body ends normally the
  generation is raised by 1 and the lease released (\<open>external_copy_success_releases\<close>
  below). But when the copy raises, the scope is left with the lease still held: no
  release call is made, and the value buffer keeps the generation written at acquire.
  Here the destination is the external endpoint of the small storage, every call of the
  primitive succeeds, and the copy raises any exception \<open>e\<close>.
\<close>

theorem external_copy_failure_keeps_lease:
  "(case ext_volume_operation demo_env demo_ext (\<lambda>sw. (Inl e :: exn + unit, sw)) (s, demo_world) of
      (r, s', w') \<Rightarrow>
        r = Inl e \<and> lease_held (trace w') \<and>
        list_all (\<lambda>cr. \<not> is_release (fst cr)) (trace w') \<and>
        lvb_writes (trace w') = [Json [(''gen'', PStr ''0'')]])"
proof -
  have "ext_volume_operation demo_env demo_ext (\<lambda>sw. (Inl e :: exn + unit, sw)) (s, demo_world)
        = (Inl e, s, snd (ext_volume_operation_enter demo_env demo_ext demo_world))"
    by (simp add: ext_volume_operation_def with_cm_def demo_enter ext_volume_operation_exit_def)
  then show ?thesis
    by (simp add: demo_enter lease_held_def holds_after_def is_release_def
        lvb_writes_def map_filter_def lvb_write_def)
qed

lemma demo_attrs: "AbstractLock_attrs demo_env = []"
  by (simp add: demo_env_def)

lemma external_copy_success_releases:
  "(case ext_volume_operation demo_env demo_ext (\<lambda>sw. (Inr () :: exn + unit, sw)) (s, demo_world) of
      (r, s', w') \<Rightarrow>
        r = Inr () \<and> \<not> lease_held (trace w') \<and>
        lvb_writes (trace w') = [Json [(''gen'', PStr ''0'')], Json [(''gen'', PInt 1)]])"
  apply (simp add: ext_volume_operation_def with_cm_def demo_enter demo_attrs)
  apply (simp add: ext_volume_operation_exit_def
      update_generation_def release_def release_call_def
      extcall_def log_info_def demo_world_def bindE_def
      demo_lease_def DiskLease_init_def except_Sanlock_def
      getattr_def setattr_def lease_name_def lease_path_def lease_offset_def encode_def
      persist_generation_def json_dumps_def set_lvb_def lease_args_def Let_def
      getitem_def setitem_def add_str_def py_int_def int_of_string_zero
      lease_held_def holds_after_def lvb_writes_def map_filter_def lvb_write_def demo_attrs)
  done

section \<open>The generation never decreases under deltas that are not negative\<close>

lemma lvb_writes_append: "lvb_writes (xs @ ys) = lvb_writes xs @ lvb_writes ys"
  by (simp add: lvb_writes_def map_filter_def)

lemma writes_replicate:
  "list_all (\<lambda>cr. lvb_write cr = None \<or> lvb_write cr = Some x) tr \<Longrightarrow>
   \<exists>k. lvb_writes tr = replicate k x"
proof (induction tr)
  case Nil
  then show ?case by (simp add: lvb_writes_def map_filter_def)
next
  case (Cons cr tr)
  then obtain k where k: "lvb_writes tr = replicate k x" by auto
  from Cons.prems have "lvb_write cr = None \<or> lvb_write cr = Some x" by simp
  then show ?case
  proof
    assume "lvb_write cr = None"
    then have "lvb_writes (cr # tr) = replicate k x"
      using k by (simp add: lvb_writes_def map_filter_def)
    then show ?thesis by blast
  next
    assume "lvb_write cr = Some x"
    then have "lvb_writes (cr # tr) = replicate (Suc k) x"
      using k by (simp add: lvb_writes_def map_filter_def)
    then show ?thesis by blast
  qed
qed

lemma lvb_generation_gen:
  "(g = PStr ''0'' \<and> m = 0 \<or> g = PInt m) \<Longrightarrow> lvb_generation (Json [(''gen'', g)]) = Inr m"
  by (auto simp: lvb_generation_def getitem_def bindE_def py_int_def int_of_string_zero)

lemma lease_inv_extend:
  assumes inv: "lease_inv w0 (self, w)"
    and g: "map_of self' ''_generation'' = Some (Dict [(''gen'', g')])"
    and ok: "g' = PStr ''0'' \<and> m' = 0 \<or> g' = PInt m' \<and> 0 \<le> m'"
    and ge: "\<And>g m. map_of self ''_generation'' = Some (Dict [(''gen'', g)]) \<Longrightarrow>
               (g = PStr ''0'' \<and> m = 0 \<or> g = PInt m \<and> 0 \<le> m) \<Longrightarrow> m \<le> m'"
    and only: "only (\<lambda>cr. lvb_write cr = None \<or> lvb_write cr = Some (Json [(''gen'', g')])) w w'"
  shows "lease_inv w0 (self', w')"
proof -
  from inv obtain g m tr ns where
    a: "map_of self ''_generation'' = Some (Dict [(''gen'', g)])"
       "g = PStr ''0'' \<and> m = 0 \<or> g = PInt m \<and> 0 \<le> m"
       "trace w = trace w0 @ tr"
       "map lvb_generation (lvb_writes tr) = map Inr ns" "sorted ns" "\<forall>n\<in>set ns. n \<le> m"
    by (auto simp: lease_inv_def)
  have mm: "m \<le> m'" using ge a(1,2) by blast
  from only obtain tr2 where
    t2: "trace w' = trace w @ tr2"
        "list_all (\<lambda>cr. lvb_write cr = None \<or> lvb_write cr = Some (Json [(''gen'', g')])) tr2"
    by (auto simp: only_def)
  obtain k where k: "lvb_writes tr2 = replicate k (Json [(''gen'', g')])"
    using writes_replicate [OF t2(2)] by blast
  have lg: "lvb_generation (Json [(''gen'', g')]) = Inr m'"
    using ok by (intro lvb_generation_gen) auto
  have 1: "trace w' = trace w0 @ (tr @ tr2)" using a(3) t2(1) by simp
  have 2: "map lvb_generation (lvb_writes (tr @ tr2)) = map Inr (ns @ replicate k m')"
    using a(4) k lg by (simp add: lvb_writes_append)
  have 3: "sorted (ns @ replicate k m')"
    using a(5,6) mm by (auto simp: sorted_append)
  have 4: "\<forall>n\<in>set (ns @ replicate k m'). n \<le> m'"
    using a(6) mm by auto
  show ?thesis
    unfolding lease_inv_def using g ok 1 2 3 4 by (intro exI [of _ g'] exI [of _ m'] exI [of _ "tr @ tr2"] exI [of _ "ns @ replicate k m'"]) simp
qed

lemma only_update_generation:
  assumes "map_of self ''_generation'' = Some (Dict [(''gen'', g)])"
    and "\<And>l m. Q (Log_info l m, Ok)"
  shows "(g = PStr ''0'' \<longrightarrow>
            map_of (fst (snd (update_generation cls self d w))) ''_generation'' =
              Some (Dict [(''gen'', PInt d)]) \<and>
            ((\<forall>sd n disks r. Q (Sanlock_set_lvb sd n disks (Json [(''gen'', PInt d)]), r)) \<longrightarrow>
              only Q w (snd (snd (update_generation cls self d w))))) \<and>
         ((\<exists>n. g = PInt n) \<longrightarrow> snd (update_generation cls self d w) = (self, w))"
proof (intro conjI impI)
  assume g0: "g = PStr ''0''"
  define self1 where "self1 = setattr self ''_generation'' (Dict [(''gen'', PInt d)])"
  define w1 where "w1 = log_info ''storage.disklease''
     (Format ''updating generation from %s to %s'' [Val (PStr ''0''), Val (PStr (''0'' @ str_int d))]) w"
  have u: "update_generation cls self d w =
      (fst (persist_generation cls self1 w1), self1, snd (persist_generation cls self1 w1))"
    using assms(1) g0
    by (simp add: update_generation_def getattr_def getitem_def add_str_def bindE_def py_int_def
        int_of_string_zero setitem_def Let_def self1_def w1_def split: prod.splits)
  have g1: "map_of self1 ''_generation'' = Some (Dict [(''gen'', PInt d)])"
    by (simp add: self1_def setattr_def update_conv')
  show "map_of (fst (snd (update_generation cls self d w))) ''_generation'' = Some (Dict [(''gen'', PInt d)])"
    using u g1 by simp
  assume q: "\<forall>sd n disks r. Q (Sanlock_set_lvb sd n disks (Json [(''gen'', PInt d)]), r)"
  have "only Q w w1" unfolding w1_def using assms(2) by (rule only_log)
  moreover have "only Q w1 (snd (persist_generation cls self1 w1))"
    using g1 q by (intro only_persist_generation) auto
  ultimately show "only Q w (snd (snd (update_generation cls self d w)))"
    using u by (auto intro: only_trans)
next
  assume "\<exists>n. g = PInt n"
  then show "snd (update_generation cls self d w) = (self, w)"
    using assms(1) update_generation_on_int [of self "[(''gen'', g)]" _ cls d w] by auto
qed

lemma lease_inv_step:
  assumes inv: "lease_inv w0 sw" and nn: "nonneg_op opn"
  shows "lease_inv w0 (lease_step cls sw opn)"
proof -
  obtain self w where sw: "sw = (self, w)" by (cases sw) auto
  have inv': "lease_inv w0 (self, w)" using inv sw by simp
  from inv' obtain g m where
    g: "map_of self ''_generation'' = Some (Dict [(''gen'', g)])"
    and ok: "g = PStr ''0'' \<and> m = 0 \<or> g = PInt m \<and> 0 \<le> m"
    unfolding lease_inv_def by auto
  have same: "\<And>g2 m2. map_of self ''_generation'' = Some (Dict [(''gen'', g2)]) \<Longrightarrow>
               (g2 = PStr ''0'' \<and> m2 = 0 \<or> g2 = PInt m2 \<and> 0 \<le> m2) \<Longrightarrow> m2 \<le> m"
  proof -
    fix g2 m2
    assume "map_of self ''_generation'' = Some (Dict [(''gen'', g2)])"
    then have "g2 = g" using g by simp
    moreover assume "g2 = PStr ''0'' \<and> m2 = 0 \<or> g2 = PInt m2 \<and> 0 \<le> m2"
    ultimately show "m2 \<le> m" using ok by auto
  qed
  show ?thesis
  proof (cases opn)
    case Acquire
    have o: "only (\<lambda>cr. lvb_write cr = None \<or> lvb_write cr = Some (Json [(''gen'', g)])) w
            (snd (snd (acquire cls self w)))"
      using g by (rule only_acquire) (simp_all add: lvb_write_def split: reply.splits)
    have g': "map_of (fst (snd (acquire cls self w))) ''_generation'' = Some (Dict [(''gen'', g)])"
      using g by (simp add: acquire_generation)
    have "lease_inv w0 (fst (snd (acquire cls self w)), snd (snd (acquire cls self w)))"
      by (rule lease_inv_extend [OF inv' g' ok same o])
    then show ?thesis using Acquire sw by (simp add: lease_step_def)
  next
    case (Update_generation d)
    then have d: "0 \<le> d" using nn by (simp add: nonneg_op_def)
    show ?thesis
    proof (cases "g = PStr ''0''")
      case True
      have q: "\<forall>sd n disks r. lvb_write (Sanlock_set_lvb sd n disks (Json [(''gen'', PInt d)]), r) = None \<or>
                 lvb_write (Sanlock_set_lvb sd n disks (Json [(''gen'', PInt d)]), r) = Some (Json [(''gen'', PInt d)])"
        by (simp add: lvb_write_def split: reply.splits)
      have l: "\<And>l m. lvb_write (Log_info l m, Ok) = None \<or>
                 lvb_write (Log_info l m, Ok) = Some (Json [(''gen'', PInt d)])"
        by (simp add: lvb_write_def)
      note u = only_update_generation [OF g, where Q = "\<lambda>cr. lvb_write cr = None \<or> lvb_write cr = Some (Json [(''gen'', PInt d)])" and cls = cls and d = d and w = w, OF l]
      have g': "map_of (fst (snd (update_generation cls self d w))) ''_generation'' =
              Some (Dict [(''gen'', PInt d)])"
        using u True by blast
      have o: "only (\<lambda>cr. lvb_write cr = None \<or> lvb_write cr = Some (Json [(''gen'', PInt d)])) w
            (snd (snd (update_generation cls self d w)))"
        using u True q by blast
      have ok': "PInt d = PStr ''0'' \<and> d = 0 \<or> PInt d = PInt d \<and> 0 \<le> d"
        using d by simp
      have ge: "\<And>g2 m2. map_of self ''_generation'' = Some (Dict [(''gen'', g2)]) \<Longrightarrow>
               (g2 = PStr ''0'' \<and> m2 = 0 \<or> g2 = PInt m2 \<and> 0 \<le> m2) \<Longrightarrow> m2 \<le> d"
      proof -
        fix g2 m2
        assume "map_of self ''_generation'' = Some (Dict [(''gen'', g2)])"
        then have "g2 = PStr ''0''" using g True by simp
        moreover assume "g2 = PStr ''0'' \<and> m2 = 0 \<or> g2 = PInt m2 \<and> 0 \<le> m2"
        ultimately show "m2 \<le> d" using d by auto
      qed
      have "lease_inv w0 (fst (snd (update_generation cls self d w)), snd (snd (update_generation cls self d w)))"
        by (rule lease_inv_extend [OF inv' g' ok' ge o])
      then show ?thesis using Update_generation sw by (simp add: lease_step_def)
    next
      case False
      then obtain n where "g = PInt n" using ok by auto
      then have "update_generation cls self d w =
                   (Inl (TypeError ''unsupported operand type(s) for +''), self, w)"
        using g by (intro update_generation_on_int [where kvs = "[(''gen'', g)]" and n = n]) simp_all
      then show ?thesis using Update_generation sw inv by (simp add: lease_step_def)
    qed
  next
    case Release
    have o: "only (\<lambda>cr. lvb_write cr = None \<or> lvb_write cr = Some (Json [(''gen'', g)])) w
            (snd (release cls self w))"
      by (rule only_release) (simp add: lvb_write_def)
    have "lease_inv w0 (self, snd (release cls self w))"
      by (rule lease_inv_extend [OF inv' g ok same o])
    then show ?thesis using Release sw by (simp add: lease_step_def)
  qed
qed

lemma lease_inv_run:
  "lease_inv w0 sw \<Longrightarrow> list_all nonneg_op ops \<Longrightarrow> lease_inv w0 (lease_run cls sw ops)"
proof (induction ops arbitrary: sw)
  case Nil
  then show ?case by (simp add: lease_run_def)
next
  case (Cons a ops)
  have "lease_inv w0 (lease_step cls sw a)"
    using Cons.prems by (intro lease_inv_step) simp_all
  then have "lease_inv w0 (lease_run cls (lease_step cls sw a) ops)"
    using Cons.prems by (intro Cons.IH) simp_all
  then show ?case by (simp add: lease_run_def)
qed

lemma lease_inv_init: "lease_inv w (DiskLease_init r p off sd h, w)"
  unfolding lease_inv_def
  by (intro exI [of _ "PStr ''0''"] exI [of _ 0] exI [of _ "[]"] exI [of _ "[]"])
     (simp add: DiskLease_init_def lvb_writes_def map_filter_def)

text \<open>
  What the \<open>acquire\<close> of a new DiskLease writes when the calls succeed: the generation
  \<open>'0'\<close> it was built with. Nothing is read from the value buffer first.
\<close>

lemma fresh_acquire_writes:
  assumes "calls_succeed w"
  shows "lvb_writes (new_events w (snd (snd (acquire cls (DiskLease_init (PStr rs) p off (PStr sds) h) w))))
         = [Json [(''gen'', PStr ''0'')]]"
proof -
  let ?self = "DiskLease_init (PStr rs) p off (PStr sds) h"
  define w1 where "w1 = snd (extcall Sanlock_register w)"
  define self1 where "self1 = setattr ?self ''_sanlock_fd'' (Val (fd w1))"
  define c where "c = Sanlock_acquire sds rs [(p, off)] (fd w1) True"
  define w2 where "w2 = snd (extcall c w1)"
  define d where "d = Sanlock_set_lvb sds rs [(p, off)] (Json [(''gen'', PStr ''0'')])"
  define w3 where "w3 = snd (extcall d w2)"
  have r1: "extcall Sanlock_register w = (Inr (), w1)"
    using extcall_succeeds(1) [OF assms, of Sanlock_register] by (simp add: w1_def prod_eq_iff)
  have s1: "calls_succeed w1" unfolding w1_def using assms by (rule extcall_succeeds(2))
  have t1: "trace w1 = trace w @ [(Sanlock_register, Ok)]"
    unfolding w1_def using assms by (rule extcall_succeeds(3))
  have ac: "acquire_call cls self1 = Inr (LeaseT (PStr rs) p off, c)"
    by (simp add: acquire_call_def self1_def DiskLease_init_def getattr_def setattr_def bindE_def
        lease_name_def lease_path_def lease_offset_def encode_def c_def)
  have r2: "extcall c w1 = (Inr (), w2)"
    using extcall_succeeds(1) [OF s1, of c] by (simp add: w2_def prod_eq_iff)
  have s2: "calls_succeed w2" unfolding w2_def using s1 by (rule extcall_succeeds(2))
  have t2: "trace w2 = trace w1 @ [(c, Ok)]"
    unfolding w2_def using s1 by (rule extcall_succeeds(3))
  have r3: "extcall d w2 = (Inr (), w3)"
    using extcall_succeeds(1) [OF s2, of d] by (simp add: w3_def prod_eq_iff)
  have t3: "trace w3 = trace w2 @ [(d, Ok)]"
    unfolding w3_def using s2 by (rule extcall_succeeds(3))
  have pg: "persist_generation cls self1 w2 = (Inr (), w3)"
    using r3
    by (simp add: persist_generation_def set_lvb_def lease_args_def self1_def DiskLease_init_def
        getattr_def setattr_def bindE_def json_dumps_def lease_name_def lease_path_def
        lease_offset_def encode_def d_def except_Sanlock_def)
  have "snd (snd (acquire cls ?self w)) = w3"
    using r1 ac r2 pg by (simp add: acquire_def except_Sanlock_def self1_def [symmetric])
  moreover have "trace w3 = trace w @ [(Sanlock_register, Ok), (c, Ok), (d, Ok)]"
    using t1 t2 t3 by simp
  ultimately show ?thesis
    by (simp add: new_events_def lvb_writes_def map_filter_def lvb_write_def c_def d_def)
qed

text \<open>
  C7, as the code has it. The entry \<open>gen\<close> of a new DiskLease is the string \<open>'0'\<close>,
  whose integer value is 0. Over any sequence of \<open>acquire\<close>, \<open>update_generation\<close> and
  \<open>release\<close> calls on it in which no delta is negative, whatever the primitive answers,
  the generations this DiskLease has written to the value buffer never decrease. That is
  a property of one DiskLease object and no more: the \<open>acquire\<close> of every new DiskLease,
  in whatever world \<open>w'\<close> it runs and whatever has been written there before, writes the
  generation \<open>'0'\<close> again.
\<close>

theorem generation_never_decreases:
  assumes "list_all nonneg_op ops"
  shows "getattr cls (DiskLease_init r p off sd h) ''_generation'' = Inr (Dict [(''gen'', PStr ''0'')]) \<and>
         py_int (PStr ''0'') = Inr 0 \<and>
         (\<exists>ns. map lvb_generation
                  (lvb_writes (new_events w (snd (lease_run cls (DiskLease_init r p off sd h, w) ops))))
                = map Inr ns \<and> sorted ns) \<and>
         (calls_succeed w' \<longrightarrow>
            lvb_writes (new_events w'
              (snd (snd (acquire cls (DiskLease_init (PStr r') p' off' (PStr sd') h') w'))))
            = [Json [(''gen'', PStr ''0'')]])"
proof -
  have "lease_inv w (lease_run cls (DiskLease_init r p off sd h, w) ops)"
    using lease_inv_init assms by (rule lease_inv_run)
  then obtain tr ns where
    "trace (snd (lease_run cls (DiskLease_init r p off sd h, w) ops)) = trace w @ tr"
    "map lvb_generation (lvb_writes tr) = map Inr ns" "sorted ns"
    by (auto simp: lease_inv_def)
  then have e: "\<exists>ns. map lvb_generation
                  (lvb_writes (new_events w (snd (lease_run cls (DiskLease_init r p off sd h, w) ops))))
                = map Inr ns \<and> sorted ns"
    by (auto simp: new_events_def)
  have a: "getattr cls (DiskLease_init r p off sd h) ''_generation'' = Inr (Dict [(''gen'', PStr ''0'')])"
    by (simp add: getattr_def DiskLease_init_def)
  have b: "py_int (PStr ''0'') = Inr 0"
    by (simp add: py_int_def int_of_string_zero)
  have f: "calls_succeed w' \<longrightarrow>
            lvb_writes (new_events w'
              (snd (snd (acquire cls (DiskLease_init (PStr r') p' off' (PStr sd') h') w'))))
            = [Json [(''gen'', PStr ''0'')]]"
    using fresh_acquire_writes by blast
  from a b e f show ?thesis by (intro conjI)
qed

lemma demo_first_holder:
  "script (snd (lease_run [] (demo_lease, demo_world) [Acquire, Update_generation 1, Release])) = []"
  by (simp add: lease_run_def lease_step_def acquire_def acquire_call_def release_def
        release_call_def update_generation_def persist_generation_def set_lvb_def lease_args_def
        except_Sanlock_def extcall_def log_info_def demo_lease_def DiskLease_init_def
        demo_world_def getattr_def setattr_def bindE_def lease_name_def lease_path_def
        lease_offset_def encode_def json_dumps_def getitem_def setitem_def add_str_def py_int_def
        int_of_string_zero Let_def)

theorem generation_never_decreases_witness:
  "list_all nonneg_op [Acquire, Update_generation 1, Release] \<and>
   (\<exists>ns. map lvb_generation
            (lvb_writes (new_events demo_world
               (snd (lease_run [] (demo_lease, demo_world) [Acquire, Update_generation 1, Release]))))
          = map Inr ns \<and> sorted ns) \<and>
   map lvb_generation
     (lvb_writes (new_events demo_world
        (snd (lease_run [] (demo_lease, demo_world) [Acquire, Update_generation 1, Release]))))
     = [Inr 0, Inr 1] \<and>
   calls_succeed (snd (lease_run [] (demo_lease, demo_world) [Acquire, Update_generation 1, Release])) \<and>
   lvb_writes
     (new_events (snd (lease_run [] (demo_lease, demo_world) [Acquire, Update_generation 1, Release]))
        (snd (snd (acquire [] demo_lease
           (snd (lease_run [] (demo_lease, demo_world) [Acquire, Update_generation 1, Release]))))))
     = [Json [(''gen'', PStr ''0'')]]"
proof -
  let ?w1 = "snd (lease_run [] (demo_lease, demo_world) [Acquire, Update_generation 1, Release])"
  have h: "list_all nonneg_op [Acquire, Update_generation 1, Release]"
    by (simp add: nonneg_op_def)
  note t = generation_never_decreases [OF h, where cls = "[]" and r = "PStr ''lease-1''"
      and p = "PStr ''/dev/sd-1/xleases''" and off = "PInt 3145728" and sd = "PStr ''sd-1''"
      and h = "PInt 1" and w = demo_world and w' = ?w1 and r' = "''lease-1''"
      and p' = "PStr ''/dev/sd-1/xleases''" and off' = "PInt 3145728" and sd' = "''sd-1''"
      and h' = "PInt 1", folded demo_lease_def]
  have e: "\<exists>ns. map lvb_generation
            (lvb_writes (new_events demo_world
               (snd (lease_run [] (demo_lease, demo_world) [Acquire, Update_generation 1, Release]))))
          = map Inr ns \<and> sorted ns"
    using t by blast
  have c: "map lvb_generation (lvb_writes (new_events demo_world ?w1)) = [Inr 0, Inr 1]"
    by (simp add: lease_run_def lease_step_def acquire_def acquire_call_def release_def
        release_call_def update_generation_def persist_generation_def set_lvb_def lease_args_def
        except_Sanlock_def extcall_def log_info_def demo_lease_def DiskLease_init_def
        demo_world_def getattr_def setattr_def bindE_def lease_name_def lease_path_def
        lease_offset_def encode_def json_dumps_def getitem_def setitem_def add_str_def py_int_def
        int_of_string_zero Let_def new_events_def lvb_writes_def map_filter_def lvb_write_def
        lvb_generation_def)
  have s: "calls_succeed ?w1"
    by (simp add: demo_first_holder calls_succeed_def)
  have n: "lvb_writes (new_events ?w1 (snd (snd (acquire [] demo_lease ?w1))))
           = [Json [(''gen'', PStr ''0'')]]"
    using t s by blast
  from h e c s n show ?thesis by (intro conjI)
qed

text \<open>
  C7, as the specification has it, fails, in two ways. No operation checks the sign of
  the delta: after \<open>acquire\<close> has written the generation 0, \<open>update_generation(-1)\<close>
  writes -1. And with the only delta the callers pass, +1: the external endpoint builds a
  new DiskLease each time its scope is entered, so when the lease is held a second time,
  after the generations 0 and 1 have been persisted, \<open>acquire\<close> persists 0 again, below
  the 1 persisted before.
\<close>

theorem generation_decreases_counterexample:
  "map lvb_generation
     (lvb_writes (trace (snd (lease_run [] (demo_lease, demo_world) [Acquire, Update_generation (- 1)]))))
     = [Inr 0, Inr (- 1)] \<and>
   \<not> sorted [0, - 1 :: int] \<and>
   getattr [] demo_lease ''_generation'' = Inr (Dict [(''gen'', PStr ''0'')]) \<and>
   map lvb_generation
     (lvb_writes (trace (snd (lease_run [] (demo_lease,
        snd (lease_run [] (demo_lease, demo_world) [Acquire, Update_generation 1, Release]))
        [Acquire, Update_generation 1, Release]))))
     = [Inr 0, Inr 1, Inr 0, Inr 1] \<and>
   \<not> sorted [0, 1, 0, 1 :: int]"
  by (simp add: lease_run_def lease_step_def acquire_def acquire_call_def release_def
      release_call_def update_generation_def persist_generation_def set_lvb_def lease_args_def
      except_Sanlock_def extcall_def log_info_def demo_lease_def DiskLease_init_def
      demo_world_def getattr_def setattr_def bindE_def lease_name_def lease_path_def
      lease_offset_def encode_def json_dumps_def getitem_def setitem_def add_str_def py_int_def
      int_of_string_zero Let_def lvb_writes_def map_filter_def lvb_write_def
      lvb_generation_def)

section \<open>The calls of a job\<close>

lemma with_cm_after_enter:
  assumes "\<And>r e w1. only Q w1 (snd (exit r e w1))"
    and "\<And>w1. only Q w1 (snd (snd (body (fst sw, w1))))"
  shows "only Q (snd (enter (snd sw))) (snd (snd (with_cm enter exit body sw)))"
proof -
  obtain r1 w1 where e: "enter (snd sw) = (r1, w1)" by (cases "enter (snd sw)") auto
  show ?thesis
  proof (cases r1)
    case (Inl x)
    then show ?thesis using e by (simp add: with_cm_def only_refl)
  next
    case (Inr r)
    obtain r2 s2 w2 where b: "body (fst sw, w1) = (r2, s2, w2)" by (cases "body (fst sw, w1)") auto
    have o2: "only Q w1 w2" using assms(2) b by (metis snd_conv)
    obtain r3 w3 where x: "exit r (case r2 of Inl e \<Rightarrow> Some e | Inr a \<Rightarrow> None) w2 = (r3, w3)"
      by (cases "exit r (case r2 of Inl e \<Rightarrow> Some e | Inr a \<Rightarrow> None) w2") auto
    have o3: "only Q w2 w3" using assms(1) x by (metis snd_conv)
    have "snd (snd (with_cm enter exit body sw)) = w3"
      using e Inr b x by (cases r2; cases r3) (simp_all add: with_cm_def)
    then show ?thesis using e o2 o3 by (auto intro: only_trans)
  qed
qed


lemma only_with_cm_job:
  assumes "\<And>w1. only Q w1 (snd (enter w1))"
    and "\<And>r e w1. only Q w1 (snd (exit r e w1))"
    and "\<And>w1. only Q w1 (snd (snd (body (fst sw, w1))))"
  shows "only Q (snd sw) (snd (snd (with_cm enter exit body sw)))"
  using assms(1) [of "snd sw"] with_cm_after_enter [of Q exit body sw enter, OF assms(2,3)]
  by (rule only_trans)

lemma outer_simps:
  "outer_call (Guarded_enter ls)" "outer_call (Guarded_exit ls)"
  "outer_call (Volume_prepare v b1 b2)" "outer_call (Volume_teardown sd v b)"
  "outer_call (AppropriateDevice p q t)" "outer_call (UdevTrigger p t)" "outer_call (Sleep n)"
  "outer_call (Log_info ''storage.sdm.copy_data'' (Text ''prepare''))"
  "outer_call (Log_info ''storage.sdm.copy_data'' (Text ''teardown''))"
  by (simp_all add: outer_call_def is_sanlock_def enters_volume_operation_def starts_copy_def)

lemma only_ext_prepare_enter:
  "only (\<lambda>cr. outer_call (fst cr)) w (snd (ext_prepare_enter x w))"
proof -
  define w0 where "w0 = log_info ''storage.sdm.copy_data'' (Text ''prepare'') w"
  define w1 where "w1 = snd (extcall (AppropriateDevice (ext_path x) PNone ''rbd'') w0)"
  define w2 where "w2 = snd (extcall (UdevTrigger (ext_path x) ''rbd'') w1)"
  define w3 where "w3 = snd (extcall (Sleep 5) w2)"
  have o0: "only (\<lambda>cr. outer_call (fst cr)) w w0"
    unfolding w0_def by (rule only_log) (simp add: outer_simps)
  have o1: "only (\<lambda>cr. outer_call (fst cr)) w0 w1"
    unfolding w1_def by (rule only_extcall) (simp add: outer_simps)
  have o2: "only (\<lambda>cr. outer_call (fst cr)) w1 w2"
    unfolding w2_def by (rule only_extcall) (simp add: outer_simps)
  have o3: "only (\<lambda>cr. outer_call (fst cr)) w2 w3"
    unfolding w3_def by (rule only_extcall) (simp add: outer_simps)
  have a1: "only (\<lambda>cr. outer_call (fst cr)) w w1" using o0 o1 by (rule only_trans)
  have a2: "only (\<lambda>cr. outer_call (fst cr)) w w2" using a1 o2 by (rule only_trans)
  have a3: "only (\<lambda>cr. outer_call (fst cr)) w w3" using a2 o3 by (rule only_trans)
  have "snd (ext_prepare_enter x w) = w1 \<or> snd (ext_prepare_enter x w) = w2 \<or>
        snd (ext_prepare_enter x w) = w3"
    by (simp add: ext_prepare_enter_def Let_def w0_def w1_def w2_def w3_def
        split: prod.splits sum.splits)
  then show ?thesis using a1 a2 a3 by auto
qed

lemma only_ep_prepare_enter:
  "only (\<lambda>cr. outer_call (fst cr)) w (snd (ep_prepare_enter E ep w))"
proof (cases ep)
  case (CopyDataDivEndpoint d)
  show ?thesis
  proof (cases "truthy (prepared d) \<or> isl (div_volume E d)")
    case True
    then show ?thesis
      using CopyDataDivEndpoint
      by (auto simp: ep_prepare_enter_def div_prepare_enter_def only_refl isl_def)
  next
    case False
    then obtain v where "div_volume E d = Inr v" by (cases "div_volume E d") auto
    then show ?thesis
      using CopyDataDivEndpoint False
      by (simp add: ep_prepare_enter_def div_prepare_enter_def only_extcall outer_simps)
  qed
next
  case (CopyDataExternalEndpoint x)
  then show ?thesis by (simp add: ep_prepare_enter_def only_ext_prepare_enter)
qed

lemma only_ep_prepare_exit:
  "only (\<lambda>cr. outer_call (fst cr)) w (snd (ep_prepare_exit E ep u raised w))"
proof (cases ep)
  case (CopyDataDivEndpoint d)
  show ?thesis
  proof (cases "truthy (prepared d) \<or> isl (div_volume E d)")
    case True
    then show ?thesis
      using CopyDataDivEndpoint
      by (auto simp: ep_prepare_exit_def div_prepare_exit_def only_refl isl_def)
  next
    case False
    then obtain v where "div_volume E d = Inr v" by (cases "div_volume E d") auto
    then show ?thesis
      using CopyDataDivEndpoint False
      by (simp add: ep_prepare_exit_def div_prepare_exit_def only_extcall outer_simps)
  qed
next
  case (CopyDataExternalEndpoint x)
  then show ?thesis
    by (simp add: ep_prepare_exit_def ext_prepare_exit_def only_log outer_simps)
qed


























lemma only_guarded:
  "only (\<lambda>cr. outer_call (fst cr)) w (snd (extcall (Guarded_enter ls) w))"
  "only (\<lambda>cr. outer_call (fst cr)) w (snd (extcall (Guarded_exit ls) w))"
  by (rule only_extcall, simp add: outer_simps)+

lemma Job_run_world:
  "snd (snd (Job_run E job w)) = w \<or>
   (\<exists>locks. Job_run E job w =
      with_cm (\<lambda>w0. extcall (Guarded_enter locks) w0)
            (\<lambda>u raised. extcall (Guarded_exit locks))
            (with_cm (ep_prepare_enter E (source job)) (ep_prepare_exit E (source job))
               (with_cm (ep_prepare_enter E (dest job)) (ep_prepare_exit E (dest job))
                  (run_body E)))
            (job, w))"
  by (auto simp: Job_run_def split: sum.splits)





section \<open>The locks of an external endpoint\<close>






section \<open>Validation of a copy of bitmaps\<close>

lemma validate_result:
  "validate_copy_bitmaps E job sf df =
     (if copy_bitmaps job \<and> (sf = FORMAT_RAW E \<or> df = FORMAT_RAW E)
      then bindE (ep_path E (source job)) (\<lambda>sp.
           bindE (ep_path E (dest job)) (\<lambda>dp.
           Inl (UnsupportedOperation
                  (Text ''Cannot copy bitmaps from/to volumes with raw format'') (Val sp) (Val dp))))
      else Inr ())"
  by (auto simp: validate_copy_bitmaps_def)

lemma validate_rejects_isl:
  "copy_bitmaps job \<and> (sf = FORMAT_RAW E \<or> df = FORMAT_RAW E) \<Longrightarrow>
   isl (validate_copy_bitmaps E job sf df)"
  by (auto simp: validate_result bindE_def split: sum.splits)

lemma run_body_rejected_world:
  assumes "effective_formats E job = Inr (sf, df)"
    and "copy_bitmaps job \<and> (sf = FORMAT_RAW E \<or> df = FORMAT_RAW E)"
  shows "snd (run_body E (job, w)) = (job, w)"
proof -
  obtain e where "validate_copy_bitmaps E job sf df = Inl e"
    using validate_rejects_isl [OF assms(2)] by (auto simp: isl_def)
  then show ?thesis using assms(1) by (simp add: run_body_def)
qed

lemma Job_run_rejected:
  assumes "effective_formats E job = Inr (sf, df)"
    and "copy_bitmaps job \<and> (sf = FORMAT_RAW E \<or> df = FORMAT_RAW E)"
  shows "only (\<lambda>cr. outer_call (fst cr)) w (snd (snd (Job_run E job w)))"
proof -
  have b: "only (\<lambda>cr. outer_call (fst cr)) w1 (snd (snd (run_body E (job, w1))))" for w1
    using run_body_rejected_world [OF assms, of w1] by (simp add: only_refl)
  have 3: "only (\<lambda>cr. outer_call (fst cr)) w1
      (snd (snd (with_cm (ep_prepare_enter E (dest job)) (ep_prepare_exit E (dest job))
                  (run_body E) (job, w1))))" for w1
  proof -
    have "only (\<lambda>cr. outer_call (fst cr)) (snd (job, w1))
      (snd (snd (with_cm (ep_prepare_enter E (dest job)) (ep_prepare_exit E (dest job))
                  (run_body E) (job, w1))))"
      by (rule only_with_cm_job) (simp_all add: only_ep_prepare_enter only_ep_prepare_exit b)
    then show ?thesis by simp
  qed
  have 2: "only (\<lambda>cr. outer_call (fst cr)) w1
      (snd (snd (with_cm (ep_prepare_enter E (source job)) (ep_prepare_exit E (source job))
               (with_cm (ep_prepare_enter E (dest job)) (ep_prepare_exit E (dest job))
                  (run_body E)) (job, w1))))" for w1
  proof -
    have "only (\<lambda>cr. outer_call (fst cr)) (snd (job, w1))
      (snd (snd (with_cm (ep_prepare_enter E (source job)) (ep_prepare_exit E (source job))
               (with_cm (ep_prepare_enter E (dest job)) (ep_prepare_exit E (dest job))
                  (run_body E)) (job, w1))))"
      by (rule only_with_cm_job) (simp_all add: only_ep_prepare_enter only_ep_prepare_exit 3)
    then show ?thesis by simp
  qed
  have "only (\<lambda>cr. outer_call (fst cr)) (snd (job, w))
      (snd (snd (with_cm (\<lambda>w0. extcall (Guarded_enter locks) w0)
            (\<lambda>u raised. extcall (Guarded_exit locks))
            (with_cm (ep_prepare_enter E (source job)) (ep_prepare_exit E (source job))
               (with_cm (ep_prepare_enter E (dest job)) (ep_prepare_exit E (dest job))
                  (run_body E)))
            (job, w))))" for locks
    by (rule only_with_cm_job) (simp_all add: only_guarded 2)
  then show ?thesis
    using Job_run_world [of E job w] by (auto simp: only_refl)
qed

text \<open>
  What \<open>_validate_copy_bitmaps\<close> returns and what the body of \<open>_run\<close> does with it, for
  a job whose effective formats and paths can be read.
\<close>

lemma validation_in_run_body:
  assumes "effective_formats E job = Inr (sf, df)"
    and "ep_path E (source job) = Inr sp" and "ep_path E (dest job) = Inr dp"
  shows "validate_copy_bitmaps E job sf df =
           (if copy_bitmaps job \<and> (sf = FORMAT_RAW E \<or> df = FORMAT_RAW E)
            then Inl (UnsupportedOperation
                   (Text ''Cannot copy bitmaps from/to volumes with raw format'') (Val sp) (Val dp))
            else Inr ()) \<and>
         (ep_is_invalid_vm_conf_disk E (source job) = Inr True \<longrightarrow>
            sf = FORMAT_RAW E \<and> df = FORMAT_RAW E) \<and>
         (copy_bitmaps job \<and> (sf = FORMAT_RAW E \<or> df = FORMAT_RAW E) \<longrightarrow>
            (status job \<noteq> ABORTED \<longrightarrow>
               run_body E (job, w) =
                 (Inl (UnsupportedOperation
                    (Text ''Cannot copy bitmaps from/to volumes with raw format'') (Val sp) (Val dp)),
                  job, w)) \<and>
            only (\<lambda>cr. \<not> enters_volume_operation (fst cr) \<and> \<not> starts_copy (fst cr)) w
              (snd (snd (Job_run E job w)))) \<and>
         (\<not> (copy_bitmaps job \<and> (sf = FORMAT_RAW E \<or> df = FORMAT_RAW E)) \<and> status job \<noteq> ABORTED \<longrightarrow>
            run_body E (job, w) =
              with_cm (ep_volume_operation_enter E (dest job)) (ep_volume_operation_exit E)
                (copy_body E sf df) (job, w))"
proof -
  have v: "validate_copy_bitmaps E job sf df =
           (if copy_bitmaps job \<and> (sf = FORMAT_RAW E \<or> df = FORMAT_RAW E)
            then Inl (UnsupportedOperation
                   (Text ''Cannot copy bitmaps from/to volumes with raw format'') (Val sp) (Val dp))
            else Inr ())"
    using assms(2,3) by (simp add: validate_result bindE_def)
  have f: "ep_is_invalid_vm_conf_disk E (source job) = Inr True \<longrightarrow>
            sf = FORMAT_RAW E \<and> df = FORMAT_RAW E"
    using assms(1) by (auto simp: effective_formats_def bindE_def)
  have r: "run_body E (job, w) =
                 (Inl (UnsupportedOperation
                    (Text ''Cannot copy bitmaps from/to volumes with raw format'') (Val sp) (Val dp)),
                  job, w)"
    if "copy_bitmaps job \<and> (sf = FORMAT_RAW E \<or> df = FORMAT_RAW E)" "status job \<noteq> ABORTED"
    using that assms(1) v by (simp add: run_body_def)
  have o: "only (\<lambda>cr. \<not> enters_volume_operation (fst cr) \<and> \<not> starts_copy (fst cr)) w
              (snd (snd (Job_run E job w)))"
    if "copy_bitmaps job \<and> (sf = FORMAT_RAW E \<or> df = FORMAT_RAW E)"
    using Job_run_rejected [OF assms(1) that, of w]
    by (rule only_mono) (simp add: outer_call_def)
  have p: "run_body E (job, w) =
              with_cm (ep_volume_operation_enter E (dest job)) (ep_volume_operation_exit E)
                (copy_body E sf df) (job, w)"
    if "\<not> (copy_bitmaps job \<and> (sf = FORMAT_RAW E \<or> df = FORMAT_RAW E))" "status job \<noteq> ABORTED"
    using that assms(1) v by (auto simp: run_body_def)
  show ?thesis using v f r o p by blast
qed






















end
